theory Spec2Isabelle
  imports Complex_Main "HOL-Library.Word" "HOL-Library.Log_Nat"
begin

section \<open>Data model\<close>

text \<open>
  The Go sources are \<^verbatim>\<open>track_local_static.go\<close> (the raw-packet and the sample track)
  and the media engine (the codec and header-extension registry with its unfinished
  negotiation). Go's \<^verbatim>\<open>error\<close> results are \<open>error option\<close> (\<open>None\<close> is \<^verbatim>\<open>nil\<close>);
  a method with a pointer receiver returns the receiver's new value next to its result.
\<close>

type_synonym PayloadType = "8 word"
type_synonym SSRC = "32 word"
type_synonym byte = "8 word"

text \<open>
  \<^verbatim>\<open>RTPCodecType\<close> is an integer type with the two named kinds; \<open>RTPCodecTypeOther\<close>
  stands for every value that is neither (the \<^verbatim>\<open>default\<close> branches of the source).
\<close>

datatype RTPCodecType = RTPCodecTypeAudio | RTPCodecTypeVideo | RTPCodecTypeOther

text \<open>
  The sentinel errors of the package, the errors a write sink reports (opaque to this
  code, so they carry a text), and the aggregate that \<^verbatim>\<open>util.FlattenErrs\<close> builds.
\<close>

datatype error =
    ErrUnknownType
  | ErrCodecNotFound
  | ErrUnsupportedCodec
  | ErrUnbindFailed
  | ErrNoPayloaderForCodec
  | WriteError string
  | multiError "error list"

record RTCPFeedback =
  fb_Type :: string
  fb_Parameter :: string

record RTPCodecCapability =
  MimeType :: string
  ClockRate :: "32 word"
  Channels :: "16 word"
  SDPFmtpLine :: string
  RTCPFeedback :: "RTCPFeedback list"

text \<open>\<^verbatim>\<open>RTPCodecParameters\<close> embeds the capability, as the record extension does.\<close>

record RTPCodecParameters = RTPCodecCapability +
  PayloadType :: PayloadType
  statsID :: string
  negotiated :: bool

definition mimeTypeH264 :: string where "mimeTypeH264 = ''video/h264''"
definition mimeTypeOpus :: string where "mimeTypeOpus = ''audio/opus''"
definition mimeTypeVP8 :: string where "mimeTypeVP8 = ''video/vp8''"
definition mimeTypeVP9 :: string where "mimeTypeVP9 = ''video/vp9''"
definition mimeTypeG722 :: string where "mimeTypeG722 = ''audio/G722''"
definition mimeTypePCMU :: string where "mimeTypePCMU = ''audio/PCMU''"
definition mimeTypePCMA :: string where "mimeTypePCMA = ''audio/PCMA''"

lemmas mimeType_defs =
  mimeTypeH264_def mimeTypeOpus_def mimeTypeVP8_def mimeTypeVP9_def
  mimeTypeG722_def mimeTypePCMU_def mimeTypePCMA_def

subsection \<open>Tracks\<close>

text \<open>
  A \<^verbatim>\<open>TrackLocalWriter\<close> is an interface value; the source only compares two of them
  with \<^verbatim>\<open>==\<close> and calls \<^verbatim>\<open>WriteRTP\<close> on one, so a writer is its identity.
\<close>

type_synonym TrackLocalWriter = nat

record trackBinding =
  ssrc :: SSRC
  payloadType :: PayloadType
  writeStream :: TrackLocalWriter

record TrackLocalStaticRTP =
  bindings :: "trackBinding list"
  codec :: RTPCodecCapability
  id_track :: string
  streamID :: string

text \<open>What the source reads of a \<^verbatim>\<open>TrackLocalContext\<close>: its three accessors.\<close>

record TrackLocalContext =
  ctx_CodecParameters :: "RTPCodecParameters list"
  ctx_SSRC :: SSRC
  ctx_WriteStream :: TrackLocalWriter

text \<open>The fields of \<^verbatim>\<open>rtp.Header\<close> and \<^verbatim>\<open>rtp.Packet\<close> (header extensions left out).\<close>

record rtp_Header =
  hdr_Version :: "8 word"
  hdr_Padding :: bool
  hdr_Extension :: bool
  hdr_Marker :: bool
  hdr_PayloadType :: "8 word"
  hdr_SequenceNumber :: "16 word"
  hdr_Timestamp :: "32 word"
  hdr_SSRC :: "32 word"
  hdr_CSRC :: "32 word list"

record rtp_Packet =
  Header :: rtp_Header
  Payload :: "byte list"

datatype Payloader =
    H264Payloader | OpusPayloader | VP8Payloader | VP9Payloader
  | G722Payloader | G711Payloader

text \<open>
  The packetizer \<^verbatim>\<open>rtp.NewPacketizer\<close> returns, as the six arguments the source
  passes; \<open>'q\<close> is the sequencer \<^verbatim>\<open>rtp.NewRandomSequencer()\<close> hands over together
  with whatever state the library keeps between calls of \<^verbatim>\<open>Packetize\<close>.
\<close>

record 'q Packetizer =
  pz_MTU :: int
  pz_PayloadType :: "8 word"
  pz_SSRC :: "32 word"
  pz_Payloader :: Payloader
  pz_Sequencer :: 'q
  pz_ClockRate :: "32 word"

text \<open>
  \<^verbatim>\<open>packetizer\<close> is an \<^verbatim>\<open>atomic.Value\<close>: empty (\<open>None\<close>) until the first
  \<^verbatim>\<open>Store\<close>.
\<close>

record 'q TrackLocalStaticSample =
  packetizer :: "'q Packetizer option"
  rtpTrack :: TrackLocalStaticRTP

section \<open>The raw-packet track\<close>

definition NewTrackLocalStaticRTP ::
  "RTPCodecCapability \<Rightarrow> string \<Rightarrow> string \<Rightarrow> error + TrackLocalStaticRTP" where
  "NewTrackLocalStaticRTP c i sid =
     Inr \<lparr>bindings = [], codec = c, id_track = i, streamID = sid\<rparr>"

text \<open>
  \<^verbatim>\<open>Bind\<close>: the loop over \<^verbatim>\<open>t.CodecParameters()\<close>; the first codec whose MimeType
  equals the track's (string equality) appends one binding and returns \<^verbatim>\<open>nil\<close>.
\<close>

fun Bind_loop ::
  "TrackLocalStaticRTP \<Rightarrow> TrackLocalContext \<Rightarrow> RTPCodecParameters list
   \<Rightarrow> error option \<times> TrackLocalStaticRTP" where
  "Bind_loop s t [] = (Some ErrUnsupportedCodec, s)"
| "Bind_loop s t (c # rest) =
     (if MimeType c = MimeType (codec s)
      then (None, s\<lparr>bindings := bindings s @
              [\<lparr>ssrc = ctx_SSRC t, payloadType = PayloadType c,
                writeStream = ctx_WriteStream t\<rparr>]\<rparr>)
      else Bind_loop s t rest)"

definition TrackLocalStaticRTP_Bind ::
  "TrackLocalStaticRTP \<Rightarrow> TrackLocalContext \<Rightarrow> error option \<times> TrackLocalStaticRTP" where
  "TrackLocalStaticRTP_Bind s t = Bind_loop s t (ctx_CodecParameters t)"

text \<open>
  \<^verbatim>\<open>Unbind\<close>: the loop over the indices of \<^verbatim>\<open>s.bindings\<close>; at the first binding
  whose writeStream is the context's, the last binding is copied into its place and the
  slice loses its last element.
\<close>

function Unbind_loop ::
  "TrackLocalStaticRTP \<Rightarrow> TrackLocalContext \<Rightarrow> nat
   \<Rightarrow> error option \<times> TrackLocalStaticRTP" where
  "Unbind_loop s t i =
     (if i < length (bindings s)
      then (if writeStream (bindings s ! i) = ctx_WriteStream t
            then (None, s\<lparr>bindings :=
                    take (length (bindings s) - 1)
                      ((bindings s)[i := bindings s ! (length (bindings s) - 1)])\<rparr>)
            else Unbind_loop s t (i + 1))
      else (Some ErrUnbindFailed, s))"
  by pat_completeness auto
termination
  by (relation "measure (\<lambda>(s, t, i). length (bindings s) - i)") auto

declare Unbind_loop.simps [simp del]

definition TrackLocalStaticRTP_Unbind ::
  "TrackLocalStaticRTP \<Rightarrow> TrackLocalContext \<Rightarrow> error option \<times> TrackLocalStaticRTP" where
  "TrackLocalStaticRTP_Unbind s t = Unbind_loop s t 0"

definition TrackLocalStaticRTP_ID :: "TrackLocalStaticRTP \<Rightarrow> string" where
  "TrackLocalStaticRTP_ID s = id_track s"

definition TrackLocalStaticRTP_StreamID :: "TrackLocalStaticRTP \<Rightarrow> string" where
  "TrackLocalStaticRTP_StreamID s = streamID s"

definition TrackLocalStaticRTP_Kind :: "TrackLocalStaticRTP \<Rightarrow> RTPCodecType" where
  "TrackLocalStaticRTP_Kind s = RTPCodecTypeVideo"

section \<open>The sample track\<close>

definition NewTrackLocalStaticSample ::
  "RTPCodecCapability \<Rightarrow> string \<Rightarrow> string \<Rightarrow> error + 'q TrackLocalStaticSample" where
  "NewTrackLocalStaticSample c i sid =
     (case NewTrackLocalStaticRTP c i sid of
        Inl err \<Rightarrow> Inl err
      | Inr r \<Rightarrow> Inr \<lparr>packetizer = None, rtpTrack = r\<rparr>)"

definition TrackLocalStaticSample_ID :: "'q TrackLocalStaticSample \<Rightarrow> string" where
  "TrackLocalStaticSample_ID s = TrackLocalStaticRTP_ID (rtpTrack s)"

definition TrackLocalStaticSample_StreamID :: "'q TrackLocalStaticSample \<Rightarrow> string" where
  "TrackLocalStaticSample_StreamID s = TrackLocalStaticRTP_StreamID (rtpTrack s)"

definition TrackLocalStaticSample_Kind :: "'q TrackLocalStaticSample \<Rightarrow> RTPCodecType" where
  "TrackLocalStaticSample_Kind s = TrackLocalStaticRTP_Kind (rtpTrack s)"

text \<open>The \<^verbatim>\<open>switch\<close> on the track's MimeType; \<open>None\<close> is its \<^verbatim>\<open>default\<close> branch.\<close>

definition payloaderFor :: "string \<Rightarrow> Payloader option" where
  "payloaderFor mime =
     (if mime = mimeTypeH264 then Some H264Payloader
      else if mime = mimeTypeOpus then Some OpusPayloader
      else if mime = mimeTypeVP8 then Some VP8Payloader
      else if mime = mimeTypeVP9 then Some VP9Payloader
      else if mime = mimeTypeG722 then Some G722Payloader
      else if mime = mimeTypePCMU \<or> mime = mimeTypePCMA then Some G711Payloader
      else None)"

text \<open>
  \<^verbatim>\<open>Bind\<close> of the sample track. \<open>mtu\<close> is the constant \<^verbatim>\<open>rtpOutboundMTU\<close> (declared
  outside the given sources) and \<open>sq\<close> the sequencer drawn by
  \<^verbatim>\<open>rtp.NewRandomSequencer()\<close>. The source calls the wrapped track's \<^verbatim>\<open>Bind\<close> on
  entry and once more in its \<^verbatim>\<open>return\<close> statement.
\<close>

definition TrackLocalStaticSample_Bind ::
  "int \<Rightarrow> 'q \<Rightarrow> 'q TrackLocalStaticSample \<Rightarrow> TrackLocalContext
   \<Rightarrow> error option \<times> 'q TrackLocalStaticSample" where
  "TrackLocalStaticSample_Bind mtu sq s t =
     (case TrackLocalStaticRTP_Bind (rtpTrack s) t of
        (Some err, r1) \<Rightarrow> (Some err, s\<lparr>rtpTrack := r1\<rparr>)
      | (None, r1) \<Rightarrow>
          (case payloaderFor (MimeType (codec r1)) of
             None \<Rightarrow> (Some ErrNoPayloaderForCodec, s\<lparr>rtpTrack := r1\<rparr>)
           | Some payloader \<Rightarrow>
               (case TrackLocalStaticRTP_Bind r1 t of
                  (err, r2) \<Rightarrow>
                    (err, \<lparr>packetizer = Some \<lparr>pz_MTU = mtu, pz_PayloadType = 0, pz_SSRC = 0,
                              pz_Payloader = payloader, pz_Sequencer = sq,
                              pz_ClockRate = ClockRate (codec r1)\<rparr>,
                           rtpTrack = r2\<rparr>))))"

definition TrackLocalStaticSample_Unbind ::
  "'q TrackLocalStaticSample \<Rightarrow> TrackLocalContext
   \<Rightarrow> error option \<times> 'q TrackLocalStaticSample" where
  "TrackLocalStaticSample_Unbind s t =
     (case TrackLocalStaticRTP_Unbind (rtpTrack s) t of
        (err, r) \<Rightarrow> (err, s\<lparr>rtpTrack := r\<rparr>))"

subsection \<open>Writing packets\<close>

text \<open>
  Modelled from the spec: \<^verbatim>\<open>util.FlattenErrs\<close> (package \<^verbatim>\<open>internal/util\<close>, which is
  not among the given sources). The spec's words for what the two write functions return
  through it: the call "fails overall with an aggregate error listing every failed
  binding's error" and "succeeds (nil error) only if every binding's write succeeded".
\<close>

definition FlattenErrs :: "error list \<Rightarrow> error option" where
  "FlattenErrs errs = (if errs = [] then None else Some (multiError errs))"

text \<open>
  A write sink's \<^verbatim>\<open>WriteRTP(header, payload)\<close>. The source hands it
  \<^verbatim>\<open>&p.Header\<close>, a pointer into the caller's packet, and the slice \<^verbatim>\<open>p.Payload\<close>,
  which shares the packet's bytes: whatever the sink writes there is what the next
  binding and the caller find. So a sink returns, next to its error, the header and the
  payload bytes it leaves and the new state of the world outside (\<open>'w\<close>). What a sink
  does is the transport's business: the sinks are a parameter, indexed by the writer's
  identity. (A real sink cannot change the length of the caller's slice; the parameter
  ranges over more than the real sinks.) The byte count a sink returns is dropped by the
  source.
\<close>

type_synonym 'w sinks =
  "TrackLocalWriter \<Rightarrow> rtp_Header \<Rightarrow> byte list \<Rightarrow> 'w
   \<Rightarrow> error option \<times> rtp_Header \<times> byte list \<times> 'w"

text \<open>
  \<^verbatim>\<open>WriteRTP\<close>: the loop over the bindings. Each round overwrites the two header
  fields of the packet as the round before left it, calls the sink, and goes on with
  the packet as the sink left it; the caller's packet comes back as the second
  component.
\<close>

fun WriteRTP_loop ::
  "'w sinks \<Rightarrow> trackBinding list \<Rightarrow> rtp_Packet \<Rightarrow> error list \<Rightarrow> 'w
   \<Rightarrow> error list \<times> rtp_Packet \<times> 'w" where
  "WriteRTP_loop wr [] p writeErrs w = (writeErrs, p, w)"
| "WriteRTP_loop wr (b # bs) p writeErrs w =
     (let p1 = p\<lparr>Header := (Header p)\<lparr>hdr_SSRC := ssrc b\<rparr>\<rparr>;
          p2 = p1\<lparr>Header := (Header p1)\<lparr>hdr_PayloadType := payloadType b\<rparr>\<rparr>
      in case wr (writeStream b) (Header p2) (Payload p2) w of
           (Some err, h', pl', w') \<Rightarrow>
             WriteRTP_loop wr bs \<lparr>Header = h', Payload = pl'\<rparr> (writeErrs @ [err]) w'
         | (None, h', pl', w') \<Rightarrow>
             WriteRTP_loop wr bs \<lparr>Header = h', Payload = pl'\<rparr> writeErrs w')"

definition TrackLocalStaticRTP_WriteRTP ::
  "'w sinks \<Rightarrow> TrackLocalStaticRTP \<Rightarrow> rtp_Packet \<Rightarrow> 'w
   \<Rightarrow> error option \<times> rtp_Packet \<times> 'w" where
  "TrackLocalStaticRTP_WriteRTP wr s p w =
     (case WriteRTP_loop wr (bindings s) p [] w of
        (writeErrs, p', w') \<Rightarrow> (FlattenErrs writeErrs, p', w'))"

subsection \<open>float64 arithmetic\<close>

text \<open>
  A finite \<^verbatim>\<open>float64\<close> is a rational number, and an IEEE 754 operation is the exact
  operation followed by rounding to the nearest number with a 53-bit significand, ties
  to the even significand. The exponent is not bounded here: the values below come from
  an \<^verbatim>\<open>int64\<close> count of nanoseconds and a \<^verbatim>\<open>uint32\<close> clock rate, which stay far
  from the overflow and the subnormal range of \<^verbatim>\<open>float64\<close>.
\<close>

type_synonym float64 = rat

text \<open>For \<open>0 < x\<close>, the \<open>e\<close> with \<open>2 ^ e \<le> x < 2 ^ (e + 1)\<close>.\<close>

definition ilog2 :: "rat \<Rightarrow> int" where
  "ilog2 x = (if 1 \<le> x then bitlen \<lfloor>x\<rfloor> - 1 else - bitlen (\<lceil>1 / x\<rceil> - 1))"

definition roundHalfEven :: "rat \<Rightarrow> int" where
  "roundHalfEven q =
     (let f = \<lfloor>q\<rfloor>; r = q - of_int f in
      if r < 1 / 2 then f
      else if 1 / 2 < r then f + 1
      else if even f then f else f + 1)"

definition f64_round :: "rat \<Rightarrow> float64" where
  "f64_round x =
     (if x = 0 then 0
      else let e = ilog2 \<bar>x\<bar> - 52 in
           sgn x * of_int (roundHalfEven (\<bar>x\<bar> / 2 powi e)) * 2 powi e)"

definition f64_add :: "float64 \<Rightarrow> float64 \<Rightarrow> float64" where
  "f64_add a b = f64_round (a + b)"

definition f64_mul :: "float64 \<Rightarrow> float64 \<Rightarrow> float64" where
  "f64_mul a b = f64_round (a * b)"

definition f64_div :: "float64 \<Rightarrow> float64 \<Rightarrow> float64" where
  "f64_div a b = f64_round (a / b)"

definition f64_of_int :: "int \<Rightarrow> float64" where
  "f64_of_int n = f64_round (of_int n)"

text \<open>Go's integer \<^verbatim>\<open>/\<close> and \<^verbatim>\<open>%\<close> truncate towards zero.\<close>

definition go_quot :: "int \<Rightarrow> int \<Rightarrow> int" where
  "go_quot a b = sgn a * sgn b * (\<bar>a\<bar> div \<bar>b\<bar>)"

definition go_rem :: "int \<Rightarrow> int \<Rightarrow> int" where
  "go_rem a b = a - b * go_quot a b"

text \<open>
  \<^verbatim>\<open>time.Duration.Seconds\<close> of the standard library, on a duration in nanoseconds:
  \<^verbatim>\<open>sec := d / Second; nsec := d % Second; return float64(sec) + float64(nsec)/1e9\<close>.
\<close>

definition Duration_Seconds :: "int \<Rightarrow> float64" where
  "Duration_Seconds d =
     (let sec = go_quot d 1000000000; nsec = go_rem d 1000000000
      in f64_add (f64_of_int sec) (f64_div (f64_of_int nsec) 1000000000))"

text \<open>
  The conversion \<^verbatim>\<open>uint32(x)\<close> of a \<^verbatim>\<open>float64\<close>: the fraction is discarded. Where the
  result does not fit the type Go leaves the value to the implementation; \<open>oor\<close> is that
  choice.
\<close>

definition f64_truncate :: "rat \<Rightarrow> int" where
  "f64_truncate x = (if 0 \<le> x then \<lfloor>x\<rfloor> else \<lceil>x\<rceil>)"

definition uint32_of_float64 :: "(float64 \<Rightarrow> 32 word) \<Rightarrow> float64 \<Rightarrow> 32 word" where
  "uint32_of_float64 oor x =
     (if 0 \<le> f64_truncate x \<and> f64_truncate x < 2 ^ 32
      then word_of_int (f64_truncate x)
      else oor x)"

subsection \<open>Writing samples\<close>

text \<open>
  \<^verbatim>\<open>media.Sample\<close> is declared in \<^verbatim>\<open>pkg/media\<close>, outside the given sources. The
  source reads \<^verbatim>\<open>sample.Data\<close> and \<^verbatim>\<open>sample.Duration.Seconds()\<close>: the duration is a
  \<^verbatim>\<open>time.Duration\<close>, a signed count of nanoseconds.
\<close>

record media_Sample =
  Data :: "byte list"
  Duration :: int

text \<open>
  Lines 196 and 197 of the source: the \<^verbatim>\<open>float64\<close> product \<^verbatim>\<open>samples\<close> and the
  \<^verbatim>\<open>uint32(samples)\<close> handed to \<^verbatim>\<open>Packetize\<close>. The division, the addition and the
  multiplication are each rounded on their own: none of them has the form \<open>x * y + z\<close>
  that a compiler may fuse.
\<close>

definition WriteSample_samples :: "'q TrackLocalStaticSample \<Rightarrow> media_Sample \<Rightarrow> float64" where
  "WriteSample_samples s sample =
     f64_mul (Duration_Seconds (Duration sample))
       (f64_of_int (uint (ClockRate (codec (rtpTrack s)))))"

fun WriteSample_loop ::
  "'w sinks \<Rightarrow> TrackLocalStaticRTP \<Rightarrow> rtp_Packet list \<Rightarrow> error list \<Rightarrow> 'w
   \<Rightarrow> error list \<times> 'w" where
  "WriteSample_loop wr r [] writeErrs w = (writeErrs, w)"
| "WriteSample_loop wr r (p # ps) writeErrs w =
     (case TrackLocalStaticRTP_WriteRTP wr r p w of
        (Some err, p', w') \<Rightarrow> WriteSample_loop wr r ps (writeErrs @ [err]) w'
      | (None, p', w') \<Rightarrow> WriteSample_loop wr r ps writeErrs w')"

text \<open>
  \<^verbatim>\<open>WriteSample\<close>. \<open>pk\<close> is the library's \<^verbatim>\<open>Packetize(payload, samples)\<close>: the packets
  it returns and the packetizer it leaves behind.
\<close>

definition TrackLocalStaticSample_WriteSample ::
  "('q Packetizer \<Rightarrow> byte list \<Rightarrow> 32 word \<Rightarrow> rtp_Packet list \<times> 'q Packetizer)
   \<Rightarrow> (float64 \<Rightarrow> 32 word) \<Rightarrow> 'w sinks
   \<Rightarrow> 'q TrackLocalStaticSample \<Rightarrow> media_Sample \<Rightarrow> 'w
   \<Rightarrow> error option \<times> 'q TrackLocalStaticSample \<times> 'w" where
  "TrackLocalStaticSample_WriteSample pk oor wr s sample w =
     (case packetizer s of
        None \<Rightarrow> (None, s, w)
      | Some p \<Rightarrow>
          (let samples = WriteSample_samples s sample in
           case pk p (Data sample) (uint32_of_float64 oor samples) of
             (packets, p') \<Rightarrow>
               (case WriteSample_loop wr (rtpTrack s) packets [] w of
                  (writeErrs, w') \<Rightarrow>
                    (FlattenErrs writeErrs, s\<lparr>packetizer := Some p'\<rparr>, w'))))"

section \<open>The media engine\<close>

record mediaEngineHeaderExtension =
  ok :: bool
  id_ext :: int
  uri :: string
  isAudio :: bool
  isVideo :: bool

record MediaEngine =
  negotiatedVideo :: bool
  negotiatedAudio :: bool
  videoCodecs :: "RTPCodecParameters list"
  audioCodecs :: "RTPCodecParameters list"
  headerExtensions :: "mediaEngineHeaderExtension list"

text \<open>The zero value \<^verbatim>\<open>MediaEngine{}\<close>.\<close>

definition emptyMediaEngine :: MediaEngine where
  "emptyMediaEngine =
     \<lparr>negotiatedVideo = False, negotiatedAudio = False, videoCodecs = [],
      audioCodecs = [], headerExtensions = []\<rparr>"

text \<open>\<^verbatim>\<open>fmt.Sprintf("RTPCodec-%d", n)\<close> for the clock reading \<open>n\<close>.\<close>

fun decimal :: "nat \<Rightarrow> string" where
  "decimal n =
     (if n < 10 then [''0123456789'' ! n]
      else decimal (n div 10) @ [''0123456789'' ! (n mod 10)])"

declare decimal.simps [simp del]

definition statsID_of :: "int \<Rightarrow> string" where
  "statsID_of n =
     ''RTPCodec-'' @ (if n < 0 then ''-'' @ decimal (nat (- n)) else decimal (nat n))"

text \<open>
  \<^verbatim>\<open>RegisterCodec\<close>; \<open>now\<close> is \<^verbatim>\<open>time.Now().UnixNano()\<close> as read by this call.
  The codec is appended to the catalog of its kind; nothing is compared.
\<close>

definition RegisterCodec ::
  "int \<Rightarrow> RTPCodecParameters \<Rightarrow> RTPCodecType \<Rightarrow> MediaEngine
   \<Rightarrow> error option \<times> MediaEngine" where
  "RegisterCodec now c typ m =
     (let c' = c\<lparr>statsID := statsID_of now\<rparr> in
      case typ of
        RTPCodecTypeAudio \<Rightarrow> (None, m\<lparr>audioCodecs := audioCodecs m @ [c']\<rparr>)
      | RTPCodecTypeVideo \<Rightarrow> (None, m\<lparr>videoCodecs := videoCodecs m @ [c']\<rparr>)
      | RTPCodecTypeOther \<Rightarrow> (Some ErrUnknownType, m))"

text \<open>
  \<^verbatim>\<open>RegisterHeaderExtension\<close>. The search loop has no \<^verbatim>\<open>break\<close>: it ends with
  the last index whose uri is the extension's, or -1 (\<open>None\<close>).
\<close>

fun extensionIndex_loop ::
  "string \<Rightarrow> mediaEngineHeaderExtension list \<Rightarrow> nat \<Rightarrow> nat option \<Rightarrow> nat option" where
  "extensionIndex_loop u [] i found = found"
| "extensionIndex_loop u (e # es) i found =
     extensionIndex_loop u es (i + 1) (if u = uri e then Some i else found)"

definition RegisterHeaderExtension ::
  "string \<Rightarrow> RTPCodecType \<Rightarrow> MediaEngine \<Rightarrow> error option \<times> MediaEngine" where
  "RegisterHeaderExtension u typ m =
     (let hs0 = headerExtensions m;
          (hs1, extensionIndex) =
            (case extensionIndex_loop u hs0 0 None of
               None \<Rightarrow>
                 (hs0 @ [\<lparr>ok = False, id_ext = 0, uri = [], isAudio = False,
                           isVideo = False\<rparr>], length hs0)
             | Some i \<Rightarrow> (hs0, i));
          hs2 = (if typ = RTPCodecTypeAudio
                 then hs1[extensionIndex := (hs1 ! extensionIndex)\<lparr>isAudio := True\<rparr>]
                 else if typ = RTPCodecTypeVideo
                 then hs1[extensionIndex := (hs1 ! extensionIndex)\<lparr>isVideo := True\<rparr>]
                 else hs1);
          hs3 = hs2[extensionIndex := (hs2 ! extensionIndex)\<lparr>uri := u\<rparr>];
          hs4 = hs3[extensionIndex :=
                  (hs3 ! extensionIndex)\<lparr>id_ext := int extensionIndex\<rparr>]
      in (None, m\<lparr>headerExtensions := hs4\<rparr>))"

text \<open>\<^verbatim>\<open>GetHeaderExtensionID\<close>: the first entry with the uri that is marked ok.\<close>

fun GetHeaderExtensionID_loop ::
  "string \<Rightarrow> mediaEngineHeaderExtension list \<Rightarrow> int \<times> bool" where
  "GetHeaderExtensionID_loop u [] = (0, False)"
| "GetHeaderExtensionID_loop u (e # es) =
     (if u = uri e \<and> ok e then (id_ext e, True) else GetHeaderExtensionID_loop u es)"

definition GetHeaderExtensionID :: "string \<Rightarrow> MediaEngine \<Rightarrow> int \<times> bool" where
  "GetHeaderExtensionID u m = GetHeaderExtensionID_loop u (headerExtensions m)"

fun getCodecByPayload_loop ::
  "PayloadType \<Rightarrow> RTPCodecParameters list \<Rightarrow> RTPCodecParameters option" where
  "getCodecByPayload_loop pt [] = None"
| "getCodecByPayload_loop pt (c # cs) =
     (if PayloadType c = pt then Some c else getCodecByPayload_loop pt cs)"

definition getCodecByPayload ::
  "PayloadType \<Rightarrow> MediaEngine \<Rightarrow> error + RTPCodecParameters" where
  "getCodecByPayload pt m =
     (case getCodecByPayload_loop pt (videoCodecs m) of
        Some c \<Rightarrow> Inr c
      | None \<Rightarrow>
          (case getCodecByPayload_loop pt (audioCodecs m) of
             Some c \<Rightarrow> Inr c
           | None \<Rightarrow> Inl ErrCodecNotFound))"

definition getCodecsByKind :: "RTPCodecType \<Rightarrow> MediaEngine \<Rightarrow> RTPCodecParameters list" where
  "getCodecsByKind kind m =
     (case kind of
        RTPCodecTypeAudio \<Rightarrow> audioCodecs m
      | RTPCodecTypeVideo \<Rightarrow> videoCodecs m
      | RTPCodecTypeOther \<Rightarrow> [])"

subsection \<open>The default codecs\<close>

definition mkCodec ::
  "string \<Rightarrow> 32 word \<Rightarrow> 16 word \<Rightarrow> string \<Rightarrow> RTCPFeedback list \<Rightarrow> PayloadType
   \<Rightarrow> RTPCodecParameters" where
  "mkCodec mime rate ch fmtp fb pt =
     \<lparr>MimeType = mime, ClockRate = rate, Channels = ch, SDPFmtpLine = fmtp,
      RTCPFeedback = fb, PayloadType = pt, statsID = [], negotiated = False\<rparr>"

definition videoRTCPFeedback :: "RTCPFeedback list" where
  "videoRTCPFeedback =
     [\<lparr>fb_Type = ''goog-remb'', fb_Parameter = []\<rparr>,
      \<lparr>fb_Type = ''transport-cc'', fb_Parameter = []\<rparr>,
      \<lparr>fb_Type = ''ccm'', fb_Parameter = ''fir''\<rparr>,
      \<lparr>fb_Type = ''nack'', fb_Parameter = []\<rparr>,
      \<lparr>fb_Type = ''nack'', fb_Parameter = ''pli''\<rparr>]"

definition defaultAudioCodecs :: "RTPCodecParameters list" where
  "defaultAudioCodecs =
     [mkCodec mimeTypeOpus 48000 2 ''minptime=10;useinbandfec=1''
        [\<lparr>fb_Type = ''transport-cc'', fb_Parameter = []\<rparr>] 111,
      mkCodec mimeTypeG722 8000 0 [] [] 9,
      mkCodec mimeTypePCMU 8000 0 [] [] 0,
      mkCodec mimeTypePCMA 8000 0 [] [] 8]"

definition defaultAudioExtensions :: "string list" where
  "defaultAudioExtensions =
     [''urn:ietf:params:rtp-hdrext:ssrc-audio-level'',
      ''http://www.webrtc.org/experiments/rtp-hdrext/abs-send-time'',
      ''http://www.ietf.org/id/draft-holmer-rmcat-transport-wide-cc-extensions-01'',
      ''urn:ietf:params:rtp-hdrext:sdes:mid'',
      ''urn:ietf:params:rtp-hdrext:sdes:rtp-stream-id'',
      ''urn:ietf:params:rtp-hdrext:sdes:repaired-rtp-stream-id'']"

definition defaultVideoCodecs :: "RTPCodecParameters list" where
  "defaultVideoCodecs =
     [mkCodec mimeTypeVP8 90000 0 [] videoRTCPFeedback 96,
      mkCodec ''video/rtx'' 90000 0 ''apt=96'' [] 97,
      mkCodec mimeTypeVP9 90000 0 ''profile-id=0'' videoRTCPFeedback 98,
      mkCodec ''video/rtx'' 90000 0 ''apt=98'' [] 99,
      mkCodec mimeTypeVP9 90000 0 ''profile-id=1'' videoRTCPFeedback 100,
      mkCodec ''video/rtx'' 90000 0 ''apt=100'' [] 101,
      mkCodec mimeTypeH264 90000 0
        ''level-asymmetry-allowed=1;packetization-mode=1;profile-level-id=42001f''
        videoRTCPFeedback 102,
      mkCodec ''video/rtx'' 90000 0 ''apt=102'' [] 121,
      mkCodec mimeTypeH264 90000 0
        ''level-asymmetry-allowed=1;packetization-mode=0;profile-level-id=42001f''
        videoRTCPFeedback 127,
      mkCodec ''video/rtx'' 90000 0 ''apt=127'' [] 120,
      mkCodec mimeTypeH264 90000 0
        ''level-asymmetry-allowed=1;packetization-mode=1;profile-level-id=42e01f''
        videoRTCPFeedback 125,
      mkCodec ''video/rtx'' 90000 0 ''apt=125'' [] 107,
      mkCodec mimeTypeH264 90000 0
        ''level-asymmetry-allowed=1;packetization-mode=0;profile-level-id=42e01f''
        videoRTCPFeedback 108,
      mkCodec ''video/rtx'' 90000 0 ''apt=108'' [] 109,
      mkCodec mimeTypeH264 90000 0
        ''level-asymmetry-allowed=1;packetization-mode=0;profile-level-id=42001f''
        videoRTCPFeedback 127,
      mkCodec ''video/rtx'' 90000 0 ''apt=127'' [] 120,
      mkCodec mimeTypeH264 90000 0
        ''level-asymmetry-allowed=1;packetization-mode=1;profile-level-id=640032''
        videoRTCPFeedback 123,
      mkCodec ''video/rtx'' 90000 0 ''apt=123'' [] 118,
      mkCodec ''video/ulpfec'' 90000 0 [] [] 116]"

definition defaultVideoExtensions :: "string list" where
  "defaultVideoExtensions =
     [''urn:ietf:params:rtp-hdrext:toffset'',
      ''http://www.webrtc.org/experiments/rtp-hdrext/abs-send-time'',
      ''urn:3gpp:video-orientation'',
      ''http://www.ietf.org/id/draft-holmer-rmcat-transport-wide-cc-extensions-01'',
      ''http://www.webrtc.org/experiments/rtp-hdrext/playout-delay'',
      ''http://www.webrtc.org/experiments/rtp-hdrext/video-content-type'',
      ''http://www.webrtc.org/experiments/rtp-hdrext/video-timing'',
      ''http://www.webrtc.org/experiments/rtp-hdrext/color-space'',
      ''urn:ietf:params:rtp-hdrext:sdes:mid'',
      ''urn:ietf:params:rtp-hdrext:sdes:rtp-stream-id'',
      ''urn:ietf:params:rtp-hdrext:sdes:repaired-rtp-stream-id'']"

text \<open>
  The four loops of \<^verbatim>\<open>RegisterDefaultCodecs\<close>; each returns at the first error.
  \<open>clock k\<close> is the clock reading of the \<open>k\<close>-th \<^verbatim>\<open>RegisterCodec\<close> call.
\<close>

fun registerCodecs ::
  "(nat \<Rightarrow> int) \<Rightarrow> nat \<Rightarrow> RTPCodecParameters list \<Rightarrow> RTPCodecType \<Rightarrow> MediaEngine
   \<Rightarrow> error option \<times> MediaEngine" where
  "registerCodecs clock k [] typ m = (None, m)"
| "registerCodecs clock k (c # cs) typ m =
     (case RegisterCodec (clock k) c typ m of
        (Some err, m') \<Rightarrow> (Some err, m')
      | (None, m') \<Rightarrow> registerCodecs clock (k + 1) cs typ m')"

fun registerExtensions ::
  "string list \<Rightarrow> RTPCodecType \<Rightarrow> MediaEngine \<Rightarrow> error option \<times> MediaEngine" where
  "registerExtensions [] typ m = (None, m)"
| "registerExtensions (u # us) typ m =
     (case RegisterHeaderExtension u typ m of
        (Some err, m') \<Rightarrow> (Some err, m')
      | (None, m') \<Rightarrow> registerExtensions us typ m')"

definition RegisterDefaultCodecs ::
  "(nat \<Rightarrow> int) \<Rightarrow> MediaEngine \<Rightarrow> error option \<times> MediaEngine" where
  "RegisterDefaultCodecs clock m =
     (case registerCodecs clock 0 defaultAudioCodecs RTPCodecTypeAudio m of
        (Some err, m1) \<Rightarrow> (Some err, m1)
      | (None, m1) \<Rightarrow>
     (case registerExtensions defaultAudioExtensions RTPCodecTypeAudio m1 of
        (Some err, m2) \<Rightarrow> (Some err, m2)
      | (None, m2) \<Rightarrow>
     (case registerCodecs clock (length defaultAudioCodecs) defaultVideoCodecs
             RTPCodecTypeVideo m2 of
        (Some err, m3) \<Rightarrow> (Some err, m3)
      | (None, m3) \<Rightarrow>
     (case registerExtensions defaultVideoExtensions RTPCodecTypeVideo m3 of
        (Some err, m4) \<Rightarrow> (Some err, m4)
      | (None, m4) \<Rightarrow> (None, m4)))))"

subsection \<open>Negotiation\<close>

text \<open>
  What the source reads of an \<^verbatim>\<open>sdp.SessionDescription\<close>: the media sections, each
  with its media name and attributes.
\<close>

record sdp_MediaName =
  Media :: string
  Port :: int
  Protos :: "string list"
  Formats :: "string list"

record sdp_Attribute =
  Key :: string
  Value :: string

record sdp_MediaDescription =
  MediaName :: sdp_MediaName
  Attributes :: "sdp_Attribute list"

record sdp_SessionDescription =
  MediaDescriptions :: "sdp_MediaDescription list"

text \<open>
  \<^verbatim>\<open>strings.EqualFold\<close> on ASCII: letters A-Z are folded, every other byte is compared
  as it is. The source calls it with the literals \<^verbatim>\<open>"audio"\<close> and \<^verbatim>\<open>"video"\<close>, whose
  letters have no fold partner outside ASCII, so there this is Go's result.
\<close>

definition toLower :: "char \<Rightarrow> char" where
  "toLower c =
     (case map_of (zip ''ABCDEFGHIJKLMNOPQRSTUVWXYZ'' ''abcdefghijklmnopqrstuvwxyz'') c of
        None \<Rightarrow> c
      | Some l \<Rightarrow> l)"

definition EqualFold :: "string \<Rightarrow> string \<Rightarrow> bool" where
  "EqualFold s t = (map toLower s = map toLower t)"

text \<open>
  \<^verbatim>\<open>updateFromRemoteDescription\<close>: per media section the \<^verbatim>\<open>switch\<close> sets one of the
  two flags or continues; the rest of the loop body is a comment in the source.
\<close>

fun updateFromRemoteDescription_loop ::
  "sdp_MediaDescription list \<Rightarrow> MediaEngine \<Rightarrow> MediaEngine" where
  "updateFromRemoteDescription_loop [] m = m"
| "updateFromRemoteDescription_loop (media # rest) m =
     (if \<not> negotiatedAudio m \<and> EqualFold (Media (MediaName media)) ''audio''
      then updateFromRemoteDescription_loop rest (m\<lparr>negotiatedAudio := True\<rparr>)
      else if \<not> negotiatedVideo m \<and> EqualFold (Media (MediaName media)) ''video''
      then updateFromRemoteDescription_loop rest (m\<lparr>negotiatedVideo := True\<rparr>)
      else updateFromRemoteDescription_loop rest m)"

definition updateFromRemoteDescription ::
  "sdp_SessionDescription \<Rightarrow> MediaEngine \<Rightarrow> error option \<times> MediaEngine" where
  "updateFromRemoteDescription desc m =
     (None, updateFromRemoteDescription_loop (MediaDescriptions desc) m)"

definition negotiatedCodecsForType ::
  "RTPCodecType \<Rightarrow> MediaEngine \<Rightarrow> RTPCodecParameters list" where
  "negotiatedCodecsForType typ m =
     (if typ = RTPCodecTypeAudio then audioCodecs m
      else if typ = RTPCodecTypeVideo then videoCodecs m
      else [])"

definition negotiatedHeaderExtensionsForType ::
  "RTPCodecType \<Rightarrow> MediaEngine \<Rightarrow> mediaEngineHeaderExtension list" where
  "negotiatedHeaderExtensionsForType typ m = headerExtensions m"

section \<open>Auxiliary notions and example values\<close>

text \<open>The binding \<^verbatim>\<open>Bind\<close> appends for the codec \<open>c\<close> of the context \<open>t\<close>.\<close>

definition bindingFor :: "TrackLocalContext \<Rightarrow> RTPCodecParameters \<Rightarrow> trackBinding" where
  "bindingFor t c =
     \<lparr>ssrc = ctx_SSRC t, payloadType = PayloadType c, writeStream = ctx_WriteStream t\<rparr>"

definition opusCapability :: RTPCodecCapability where
  "opusCapability =
     \<lparr>MimeType = mimeTypeOpus, ClockRate = 48000, Channels = 2,
      SDPFmtpLine = ''minptime=10;useinbandfec=1'',
      RTCPFeedback = [\<lparr>fb_Type = ''transport-cc'', fb_Parameter = []\<rparr>]\<rparr>"

definition rtxCapability :: RTPCodecCapability where
  "rtxCapability =
     \<lparr>MimeType = ''video/rtx'', ClockRate = 90000, Channels = 0,
      SDPFmtpLine = ''apt=96'', RTCPFeedback = []\<rparr>"

text \<open>A context that offers the one codec \<open>c\<close> under payload type \<open>pt\<close>.\<close>

definition exampleContext :: "RTPCodecCapability \<Rightarrow> PayloadType \<Rightarrow> TrackLocalContext" where
  "exampleContext c pt =
     \<lparr>ctx_CodecParameters =
        [RTPCodecCapability.extend c
           \<lparr>PayloadType = pt, statsID = ''RTPCodec-0'', negotiated = False\<rparr>],
      ctx_SSRC = 1, ctx_WriteStream = 7\<rparr>"

text \<open>A sample track as \<^verbatim>\<open>NewTrackLocalStaticSample\<close> returns it.\<close>

definition exampleSampleTrack :: "RTPCodecCapability \<Rightarrow> nat TrackLocalStaticSample" where
  "exampleSampleTrack c =
     \<lparr>packetizer = None,
      rtpTrack = \<lparr>bindings = [], codec = c, id_track = ''audio'', streamID = ''pion''\<rparr>\<rparr>"

text \<open>
  A record of one call of a write sink (the header and payload as handed to it, and the
  error it returned), and sinks that note every call they receive: the means to state
  which sinks a write function has called, with what, in which order.
\<close>

record sinkCall =
  call_sink :: TrackLocalWriter
  call_header :: rtp_Header
  call_payload :: "byte list"
  call_result :: "error option"

definition logged :: "'w sinks \<Rightarrow> ('w \<times> sinkCall list) sinks" where
  "logged wr ws h pl =
     (\<lambda>(w, calls). case wr ws h pl w of
        (r, h', pl', w') \<Rightarrow>
          (r, h', pl',
           (w', calls @ [\<lparr>call_sink = ws, call_header = h, call_payload = pl,
                          call_result = r\<rparr>])))"

text \<open>
  Three bindings and a packet. Every sink clears the marker bit of the header and the
  first payload byte, the second sink fails, and the sinks' state counts the calls.
\<close>

definition exampleSinks :: "nat sinks" where
  "exampleSinks ws h pl n =
     (if ws = 2 then Some (WriteError ''closed'') else None,
      h\<lparr>hdr_Marker := False\<rparr>, pl[0 := 0], n + 1)"

definition exampleRTPTrack :: TrackLocalStaticRTP where
  "exampleRTPTrack =
     \<lparr>bindings = [\<lparr>ssrc = 11, payloadType = 96, writeStream = 1\<rparr>,
                  \<lparr>ssrc = 22, payloadType = 97, writeStream = 2\<rparr>,
                  \<lparr>ssrc = 33, payloadType = 98, writeStream = 3\<rparr>],
      codec = \<lparr>MimeType = mimeTypeVP8, ClockRate = 90000, Channels = 0,
               SDPFmtpLine = [], RTCPFeedback = []\<rparr>,
      id_track = ''video'', streamID = ''pion''\<rparr>"

definition exampleHeader :: "bool \<Rightarrow> 32 word \<Rightarrow> 8 word \<Rightarrow> rtp_Header" where
  "exampleHeader mk sc pt =
     \<lparr>hdr_Version = 2, hdr_Padding = False, hdr_Extension = False, hdr_Marker = mk,
      hdr_PayloadType = pt, hdr_SequenceNumber = 5, hdr_Timestamp = 1000,
      hdr_SSRC = sc, hdr_CSRC = []\<rparr>"

definition examplePacket :: rtp_Packet where
  "examplePacket = \<lparr>Header = exampleHeader True 0 0, Payload = [1, 2, 3]\<rparr>"

definition exampleCalls :: "sinkCall list" where
  "exampleCalls =
     [\<lparr>call_sink = 1, call_header = exampleHeader True 11 96, call_payload = [1, 2, 3],
       call_result = None\<rparr>,
      \<lparr>call_sink = 2, call_header = exampleHeader False 22 97, call_payload = [0, 2, 3],
       call_result = Some (WriteError ''closed'')\<rparr>,
      \<lparr>call_sink = 3, call_header = exampleHeader False 33 98, call_payload = [0, 2, 3],
       call_result = None\<rparr>]"

text \<open>
  The codecs \<open>cs\<close> as \<^verbatim>\<open>RegisterCodec\<close> stores them when the first of them is the
  \<open>k\<close>-th registration: each with the statsID of its clock reading.
\<close>

definition stampedCodecs ::
  "(nat \<Rightarrow> int) \<Rightarrow> nat \<Rightarrow> RTPCodecParameters list \<Rightarrow> RTPCodecParameters list" where
  "stampedCodecs clock k cs =
     map (\<lambda>(j, c). c\<lparr>statsID := statsID_of (clock j)\<rparr>) (zip [k..<k + length cs] cs)"

text \<open>The remote description of the test "Enable Opus": one audio section, 111 is opus.\<close>

definition opusRemoteDescription :: sdp_SessionDescription where
  "opusRemoteDescription =
     \<lparr>MediaDescriptions =
        [\<lparr>MediaName = \<lparr>Media = ''audio'', Port = 9,
                        Protos = [''UDP'', ''TLS'', ''RTP'', ''SAVPF''],
                        Formats = [''111'']\<rparr>,
          Attributes = [\<lparr>Key = ''rtpmap'', Value = ''111 opus/48000/2''\<rparr>]\<rparr>]\<rparr>"

definition exampleClock :: "nat \<Rightarrow> int" where
  "exampleClock k = 1600000000000000000 + int k"

text \<open>
  The registry after \<^verbatim>\<open>RegisterDefaultCodecs\<close> on a fresh engine, and after the
  negotiation with the opus description that follows it in the test.
\<close>

definition defaultEngine :: MediaEngine where
  "defaultEngine = snd (RegisterDefaultCodecs exampleClock emptyMediaEngine)"

definition negotiatedEngine :: MediaEngine where
  "negotiatedEngine = snd (updateFromRemoteDescription opusRemoteDescription defaultEngine)"

text \<open>
  A sequence of \<^verbatim>\<open>RegisterCodec\<close> calls, each given with its clock reading; a call that
  returns an error leaves the registry as it was, and the next call goes on from there.
\<close>

fun RegisterCodec_calls ::
  "(int \<times> RTPCodecParameters \<times> RTPCodecType) list \<Rightarrow> MediaEngine \<Rightarrow> MediaEngine" where
  "RegisterCodec_calls [] m = m"
| "RegisterCodec_calls ((now, c, typ) # rest) m =
     RegisterCodec_calls rest (snd (RegisterCodec now c typ m))"

text \<open>The codecs a sequence of calls registers for one kind, in call order.\<close>

definition registeredFor ::
  "RTPCodecType \<Rightarrow> (int \<times> RTPCodecParameters \<times> RTPCodecType) list
   \<Rightarrow> RTPCodecParameters list" where
  "registeredFor kind calls = map (fst \<circ> snd) (filter (\<lambda>x. snd (snd x) = kind) calls)"

text \<open>
  The registries a program can build: the zero value, changed only by the registry's own
  operations.
\<close>

inductive reachable :: "MediaEngine \<Rightarrow> bool" where
  fresh: "reachable emptyMediaEngine"
| codec: "reachable m \<Longrightarrow> reachable (snd (RegisterCodec now c typ m))"
| extension: "reachable m \<Longrightarrow> reachable (snd (RegisterHeaderExtension u typ m))"
| defaults: "reachable m \<Longrightarrow> reachable (snd (RegisterDefaultCodecs clock m))"
| negotiation: "reachable m \<Longrightarrow> reachable (snd (updateFromRemoteDescription desc m))"

text \<open>The entry \<^verbatim>\<open>RegisterHeaderExtension\<close> leaves at the index it has chosen.\<close>

definition registeredEntry ::
  "string \<Rightarrow> RTPCodecType \<Rightarrow> nat \<Rightarrow> mediaEngineHeaderExtension \<Rightarrow> mediaEngineHeaderExtension"
  where
  "registeredEntry u typ i e =
     e\<lparr>isAudio := isAudio e \<or> typ = RTPCodecTypeAudio,
       isVideo := isVideo e \<or> typ = RTPCodecTypeVideo,
       uri := u, id_ext := int i\<rparr>"

text \<open>A registry that holds one video extension, and the entry for a second uri.\<close>

definition exampleRegistry :: MediaEngine where
  "exampleRegistry =
     snd (RegisterHeaderExtension ''urn:3gpp:video-orientation'' RTPCodecTypeVideo
            emptyMediaEngine)"

definition exampleExtension :: "string \<Rightarrow> int \<Rightarrow> bool \<Rightarrow> bool \<Rightarrow> mediaEngineHeaderExtension"
  where
  "exampleExtension u i a v = \<lparr>ok = False, id_ext = i, uri = u, isAudio = a, isVideo = v\<rparr>"

definition exampleRegistry1 :: MediaEngine where
  "exampleRegistry1 =
     emptyMediaEngine\<lparr>headerExtensions :=
       [exampleExtension ''urn:3gpp:video-orientation'' 0 False True,
        exampleExtension ''urn:ietf:params:rtp-hdrext:sdes:mid'' 1 True False]\<rparr>"

definition exampleRegistry2 :: MediaEngine where
  "exampleRegistry2 =
     emptyMediaEngine\<lparr>headerExtensions :=
       [exampleExtension ''urn:3gpp:video-orientation'' 0 False True,
        exampleExtension ''urn:ietf:params:rtp-hdrext:sdes:mid'' 1 True True]\<rparr>"

text \<open>
  The opus sample track of claim C2 after its \<^verbatim>\<open>Bind\<close>, a sample of 20 ms, and a
  stand-in for the library's packetizer: one packet per sample, and the sequencer state
  (a number here) advanced by the samples it is given.
\<close>

definition boundSampleTrack :: "nat TrackLocalStaticSample" where
  "boundSampleTrack =
     \<lparr>packetizer = Some \<lparr>pz_MTU = 1200, pz_PayloadType = 0, pz_SSRC = 0,
          pz_Payloader = OpusPayloader, pz_Sequencer = 0, pz_ClockRate = 48000\<rparr>,
      rtpTrack = \<lparr>bindings = [\<lparr>ssrc = 1, payloadType = 111, writeStream = 7\<rparr>,
                               \<lparr>ssrc = 1, payloadType = 111, writeStream = 7\<rparr>],
                  codec = opusCapability, id_track = ''audio'', streamID = ''pion''\<rparr>\<rparr>"

definition exampleSample :: "int \<Rightarrow> media_Sample" where
  "exampleSample d = \<lparr>Data = [1, 2, 3], Duration = d\<rparr>"

definition examplePacketize ::
  "nat Packetizer \<Rightarrow> byte list \<Rightarrow> 32 word \<Rightarrow> rtp_Packet list \<times> nat Packetizer" where
  "examplePacketize p payload samples =
     ([\<lparr>Header = exampleHeader True (pz_SSRC p) (pz_PayloadType p), Payload = payload\<rparr>],
      p\<lparr>pz_Sequencer := pz_Sequencer p + unat samples\<rparr>)"

text \<open>A video track at 90000 Hz with a packetizer and no binding.\<close>

definition videoSampleTrack :: "nat TrackLocalStaticSample" where
  "videoSampleTrack =
     \<lparr>packetizer = Some \<lparr>pz_MTU = 1200, pz_PayloadType = 0, pz_SSRC = 0,
          pz_Payloader = VP8Payloader, pz_Sequencer = 0, pz_ClockRate = 90000\<rparr>,
      rtpTrack = \<lparr>bindings = [],
                  codec = \<lparr>MimeType = mimeTypeVP8, ClockRate = 90000, Channels = 0,
                           SDPFmtpLine = [], RTCPFeedback = []\<rparr>,
                  id_track = ''video'', streamID = ''pion''\<rparr>\<rparr>"

section \<open>Bind and Unbind\<close>

lemma Bind_loop_find:
  "Bind_loop s t cs =
     (case find (\<lambda>c. MimeType c = MimeType (codec s)) cs of
        None \<Rightarrow> (Some ErrUnsupportedCodec, s)
      | Some c \<Rightarrow> (None, s\<lparr>bindings := bindings s @ [bindingFor t c]\<rparr>))"
  by (induction cs) (simp_all add: bindingFor_def)

lemma Unbind_loop_no_match:
  "list_all (\<lambda>b. writeStream b \<noteq> ctx_WriteStream t) (drop i (bindings s))
   \<Longrightarrow> Unbind_loop s t i = (Some ErrUnbindFailed, s)"
proof (induction s t i rule: Unbind_loop.induct)
  case (1 s t i)
  show ?case
  proof (cases "i < length (bindings s)")
    case True
    then have d: "drop i (bindings s) = bindings s ! i # drop (Suc i) (bindings s)"
      by (simp add: Cons_nth_drop_Suc)
    with "1.prems" have ne: "writeStream (bindings s ! i) \<noteq> ctx_WriteStream t"
      and rest: "list_all (\<lambda>b. writeStream b \<noteq> ctx_WriteStream t) (drop (i + 1) (bindings s))"
      by simp_all
    from "1.IH" [OF True ne rest] True ne show ?thesis
      by (subst Unbind_loop.simps) simp
  next
    case False
    then show ?thesis by (subst Unbind_loop.simps) simp
  qed
qed

lemma Unbind_loop_result:
  "Unbind_loop s t i = (e, s') \<Longrightarrow>
     (e = None \<and> length (bindings s') = length (bindings s) - 1
        \<and> (\<exists>j. i \<le> j \<and> j < length (bindings s) \<and> writeStream (bindings s ! j) = ctx_WriteStream t
              \<and> s' = s\<lparr>bindings := take (length (bindings s) - 1)
                      ((bindings s)[j := bindings s ! (length (bindings s) - 1)])\<rparr>))
     \<or> (e = Some ErrUnbindFailed \<and> s' = s)"
proof (induction s t i arbitrary: e s' rule: Unbind_loop.induct)
  case (1 s t i)
  show ?case
  proof (cases "i < length (bindings s)")
    case True
    show ?thesis
    proof (cases "writeStream (bindings s ! i) = ctx_WriteStream t")
      case m: True
      from "1.prems" True m have "e = None"
        and "s' = s\<lparr>bindings := take (length (bindings s) - 1)
                      ((bindings s)[i := bindings s ! (length (bindings s) - 1)])\<rparr>"
        by (simp_all add: Unbind_loop.simps [of s t i])
      with True m show ?thesis by auto
    next
      case nm: False
      from "1.prems" True nm have "Unbind_loop s t (i + 1) = (e, s')"
        by (simp add: Unbind_loop.simps [of s t i])
      from "1.IH" [OF True nm this] show ?thesis
      proof (elim disjE conjE exE)
        fix j
        assume "e = None" "length (bindings s') = length (bindings s) - 1"
          "i + 1 \<le> j" "j < length (bindings s)"
          "writeStream (bindings s ! j) = ctx_WriteStream t"
          "s' = s\<lparr>bindings := take (length (bindings s) - 1)
                      ((bindings s)[j := bindings s ! (length (bindings s) - 1)])\<rparr>"
        moreover from \<open>i + 1 \<le> j\<close> have "i \<le> j" by simp
        ultimately show ?thesis by blast
      next
        assume "e = Some ErrUnbindFailed" "s' = s"
        then show ?thesis by simp
      qed
    qed
  next
    case False
    with "1.prems" show ?thesis by (simp add: Unbind_loop.simps [of s t i])
  qed
qed


lemma Unbind_loop_match:
  "i \<le> j \<Longrightarrow> j < length (bindings s) \<Longrightarrow> writeStream (bindings s ! j) = ctx_WriteStream t
   \<Longrightarrow> fst (Unbind_loop s t i) = None"
proof (induction s t i rule: Unbind_loop.induct)
  case (1 s t i)
  from "1.prems" have lt: "i < length (bindings s)" by simp
  show ?case
  proof (cases "writeStream (bindings s ! i) = ctx_WriteStream t")
    case True
    with lt show ?thesis by (simp add: Unbind_loop.simps [of s t i])
  next
    case False
    with "1.prems" have "i \<noteq> j" by auto
    with "1.prems" have "i + 1 \<le> j" by simp
    from "1.IH" [OF lt False this "1.prems"(2,3)] lt False show ?thesis
      by (simp add: Unbind_loop.simps [of s t i])
  qed
qed

lemma RTP_Bind_find:
  "TrackLocalStaticRTP_Bind s t =
     (case find (\<lambda>c. MimeType c = MimeType (codec s)) (ctx_CodecParameters t) of
        None \<Rightarrow> (Some ErrUnsupportedCodec, s)
      | Some c \<Rightarrow> (None, s\<lparr>bindings := bindings s @ [bindingFor t c]\<rparr>))"
  by (simp add: TrackLocalStaticRTP_Bind_def Bind_loop_find)

lemma RTP_Unbind_unbound:
  "list_all (\<lambda>b. writeStream b \<noteq> ctx_WriteStream t) (bindings s)
   \<Longrightarrow> TrackLocalStaticRTP_Unbind s t = (Some ErrUnbindFailed, s)"
  by (simp add: TrackLocalStaticRTP_Unbind_def Unbind_loop_no_match)

lemma RTP_Bind_Unbind_size:
  assumes "TrackLocalStaticRTP_Bind s t = (None, s1)"
  shows "\<exists>s2. TrackLocalStaticRTP_Unbind s1 t = (None, s2)
           \<and> length (bindings s2) = length (bindings s)"
proof -
  from assms obtain c where s1: "s1 = s\<lparr>bindings := bindings s @ [bindingFor t c]\<rparr>"
    by (auto simp: RTP_Bind_find split: option.splits)
  have "fst (Unbind_loop s1 t 0) = None"
    by (rule Unbind_loop_match [where j = "length (bindings s)"])
       (simp_all add: s1 bindingFor_def)
  then obtain s2 where u: "Unbind_loop s1 t 0 = (None, s2)"
    by (cases "Unbind_loop s1 t 0") simp
  from Unbind_loop_result [OF u] have "length (bindings s2) = length (bindings s1) - 1"
    by simp
  with u s1 show ?thesis by (simp add: TrackLocalStaticRTP_Unbind_def)
qed


lemma Sample_Bind_unfold:
  "TrackLocalStaticSample_Bind mtu sq s t =
     (case find (\<lambda>c. MimeType c = MimeType (codec (rtpTrack s))) (ctx_CodecParameters t) of
        None \<Rightarrow> (Some ErrUnsupportedCodec, s)
      | Some c \<Rightarrow>
          (case payloaderFor (MimeType (codec (rtpTrack s))) of
             None \<Rightarrow> (Some ErrNoPayloaderForCodec,
                       s\<lparr>rtpTrack := (rtpTrack s)\<lparr>bindings :=
                           bindings (rtpTrack s) @ [bindingFor t c]\<rparr>\<rparr>)
           | Some pl \<Rightarrow>
               (None, \<lparr>packetizer = Some \<lparr>pz_MTU = mtu, pz_PayloadType = 0, pz_SSRC = 0,
                          pz_Payloader = pl, pz_Sequencer = sq,
                          pz_ClockRate = ClockRate (codec (rtpTrack s))\<rparr>,
                       rtpTrack = (rtpTrack s)\<lparr>bindings :=
                           bindings (rtpTrack s) @ [bindingFor t c, bindingFor t c]\<rparr>\<rparr>)))"
proof (cases "find (\<lambda>c. MimeType c = MimeType (codec (rtpTrack s))) (ctx_CodecParameters t)")
  case None
  then show ?thesis
    by (simp add: TrackLocalStaticSample_Bind_def RTP_Bind_find)
next
  case (Some c)
  show ?thesis
  proof (cases "payloaderFor (MimeType (codec (rtpTrack s)))")
    case None
    with Some show ?thesis
      by (simp add: TrackLocalStaticSample_Bind_def RTP_Bind_find)
  next
    case (Some pl)
    with \<open>find _ _ = Some c\<close> show ?thesis
      by (simp add: TrackLocalStaticSample_Bind_def RTP_Bind_find)
  qed
qed


lemma Sample_Bind_success:
  assumes "TrackLocalStaticSample_Bind mtu sq s t = (None, s')"
  shows "\<exists>c pl.
           find (\<lambda>c. MimeType c = MimeType (codec (rtpTrack s))) (ctx_CodecParameters t)
             = Some c
           \<and> payloaderFor (MimeType (codec (rtpTrack s))) = Some pl
           \<and> bindings (rtpTrack s')
               = bindings (rtpTrack s) @ [bindingFor t c, bindingFor t c]
           \<and> packetizer s' = Some \<lparr>pz_MTU = mtu, pz_PayloadType = 0, pz_SSRC = 0,
                 pz_Payloader = pl, pz_Sequencer = sq,
                 pz_ClockRate = ClockRate (codec (rtpTrack s))\<rparr>"
proof (cases "find (\<lambda>c. MimeType c = MimeType (codec (rtpTrack s))) (ctx_CodecParameters t)")
  case None
  with assms show ?thesis by (simp add: Sample_Bind_unfold)
next
  case (Some c)
  show ?thesis
  proof (cases "payloaderFor (MimeType (codec (rtpTrack s)))")
    case None
    with Some assms show ?thesis by (simp add: Sample_Bind_unfold)
  next
    case (Some pl)
    with \<open>find _ _ = Some c\<close> assms show ?thesis
      by (auto simp: Sample_Bind_unfold)
  qed
qed

lemma exampleSampleTrack_Bind:
  "TrackLocalStaticSample_Bind 1200 0 (exampleSampleTrack opusCapability)
       (exampleContext opusCapability 111)
     = (None,
        \<lparr>packetizer = Some \<lparr>pz_MTU = 1200, pz_PayloadType = 0, pz_SSRC = 0,
             pz_Payloader = OpusPayloader, pz_Sequencer = 0, pz_ClockRate = 48000\<rparr>,
         rtpTrack = \<lparr>bindings = [\<lparr>ssrc = 1, payloadType = 111, writeStream = 7\<rparr>,
                                  \<lparr>ssrc = 1, payloadType = 111, writeStream = 7\<rparr>],
                     codec = opusCapability, id_track = ''audio'', streamID = ''pion''\<rparr>\<rparr>)"
  by (simp add: Sample_Bind_unfold exampleSampleTrack_def exampleContext_def opusCapability_def
      RTPCodecCapability.defs payloaderFor_def mimeType_defs bindingFor_def)

lemma exampleSampleTrack_Unbind:
  "TrackLocalStaticSample_Unbind
       \<lparr>packetizer = Some \<lparr>pz_MTU = 1200, pz_PayloadType = 0, pz_SSRC = 0,
             pz_Payloader = OpusPayloader, pz_Sequencer = 0 :: nat, pz_ClockRate = 48000\<rparr>,
        rtpTrack = \<lparr>bindings = [\<lparr>ssrc = 1, payloadType = 111, writeStream = 7\<rparr>,
                                 \<lparr>ssrc = 1, payloadType = 111, writeStream = 7\<rparr>],
                    codec = opusCapability, id_track = ''audio'', streamID = ''pion''\<rparr>\<rparr>
       (exampleContext opusCapability 111)
     = (None,
        \<lparr>packetizer = Some \<lparr>pz_MTU = 1200, pz_PayloadType = 0, pz_SSRC = 0,
             pz_Payloader = OpusPayloader, pz_Sequencer = 0, pz_ClockRate = 48000\<rparr>,
         rtpTrack = \<lparr>bindings = [\<lparr>ssrc = 1, payloadType = 111, writeStream = 7\<rparr>],
                     codec = opusCapability, id_track = ''audio'', streamID = ''pion''\<rparr>\<rparr>)"
  by (simp add: TrackLocalStaticSample_Unbind_def TrackLocalStaticRTP_Unbind_def
      Unbind_loop.simps [of _ _ 0] exampleContext_def)

text \<open>
  Claim C2. One successful \<^verbatim>\<open>Bind\<close> of a sample track should call the wrapped raw
  track's \<^verbatim>\<open>Bind\<close> once and so append one binding, keeping at most one binding per
  write sink. The source calls it twice: on a fresh opus sample track, bound to a
  context that offers opus under payload type 111 with write sink 7, the binding list
  holds two bindings afterwards, both for sink 7.
\<close>

theorem Sample_Bind_binds_twice:
  "(case TrackLocalStaticSample_Bind 1200 0 (exampleSampleTrack opusCapability)
           (exampleContext opusCapability 111) of
      (err, s') \<Rightarrow>
        err = None
        \<and> bindings (rtpTrack (exampleSampleTrack opusCapability)) = []
        \<and> bindings (rtpTrack s') = [\<lparr>ssrc = 1, payloadType = 111, writeStream = 7\<rparr>,
                                     \<lparr>ssrc = 1, payloadType = 111, writeStream = 7\<rparr>]
        \<and> \<not> distinct (map writeStream (bindings (rtpTrack s'))))"
  by (simp add: exampleSampleTrack_Bind) (simp add: exampleSampleTrack_def)

text \<open>
  Claim C6. \<^verbatim>\<open>Bind\<close> followed by \<^verbatim>\<open>Unbind\<close> with the same context should bring the
  binding list back to its size before the \<^verbatim>\<open>Bind\<close>. For the raw-packet track it
  does (\<open>RTP_Bind_Unbind_size\<close>), and \<^verbatim>\<open>Unbind\<close> with an unknown sink fails and
  changes nothing (\<open>RTP_Unbind_unbound\<close>). For the sample track the doubled \<^verbatim>\<open>Bind\<close>
  leaves one binding behind: the fresh opus track ends with one binding, not none.
\<close>

theorem Sample_Bind_Unbind_leaves_binding:
  "(case TrackLocalStaticSample_Bind 1200 0 (exampleSampleTrack opusCapability)
           (exampleContext opusCapability 111) of
      (err1, s1) \<Rightarrow>
        (case TrackLocalStaticSample_Unbind s1 (exampleContext opusCapability 111) of
           (err2, s2) \<Rightarrow>
             err1 = None \<and> err2 = None
             \<and> length (bindings (rtpTrack (exampleSampleTrack opusCapability))) = 0
             \<and> bindings (rtpTrack s2) = [\<lparr>ssrc = 1, payloadType = 111, writeStream = 7\<rparr>]))"
  by (simp add: exampleSampleTrack_Bind exampleSampleTrack_Unbind)
     (simp add: exampleSampleTrack_def)

text \<open>
  Claim C10. When \<^verbatim>\<open>Bind\<close> of a sample track fails with \<^verbatim>\<open>ErrNoPayloaderForCodec\<close>,
  the track's MimeType is outside the supported set and the context did offer it; the
  wrapped track has then kept the binding of the first \<^verbatim>\<open>Bind\<close> call (one binding
  more than before), and the stored packetizer is the one from before the call.
\<close>

theorem Sample_Bind_NoPayloader_keeps_binding:
  assumes "TrackLocalStaticSample_Bind mtu sq s t = (Some ErrNoPayloaderForCodec, s')"
  shows "payloaderFor (MimeType (codec (rtpTrack s))) = None
    \<and> (\<exists>c. find (\<lambda>c. MimeType c = MimeType (codec (rtpTrack s))) (ctx_CodecParameters t)
             = Some c
          \<and> bindings (rtpTrack s') = bindings (rtpTrack s) @
              [\<lparr>ssrc = ctx_SSRC t, payloadType = PayloadType c,
                writeStream = ctx_WriteStream t\<rparr>])
    \<and> length (bindings (rtpTrack s')) = length (bindings (rtpTrack s)) + 1
    \<and> packetizer s' = packetizer s"
proof (cases "find (\<lambda>c. MimeType c = MimeType (codec (rtpTrack s))) (ctx_CodecParameters t)")
  case None
  with assms show ?thesis by (simp add: Sample_Bind_unfold)
next
  case (Some c)
  show ?thesis
  proof (cases "payloaderFor (MimeType (codec (rtpTrack s)))")
    case None
    with Some assms show ?thesis
      by (auto simp: Sample_Bind_unfold bindingFor_def)
  next
    case (Some pl)
    with \<open>find _ _ = Some c\<close> assms show ?thesis by (simp add: Sample_Bind_unfold)
  qed
qed

lemma Sample_Bind_NoPayloader_iff:
  "(fst (TrackLocalStaticSample_Bind mtu sq s t) = Some ErrNoPayloaderForCodec)
     = (payloaderFor (MimeType (codec (rtpTrack s))) = None
        \<and> find (\<lambda>c. MimeType c = MimeType (codec (rtpTrack s))) (ctx_CodecParameters t)
            \<noteq> None)"
  by (cases "find (\<lambda>c. MimeType c = MimeType (codec (rtpTrack s))) (ctx_CodecParameters t)";
      cases "payloaderFor (MimeType (codec (rtpTrack s)))")
     (simp_all add: Sample_Bind_unfold)

theorem Sample_Bind_NoPayloader_keeps_binding_witness:
  "TrackLocalStaticSample_Bind 1200 5
       ((exampleSampleTrack rtxCapability)
          \<lparr>packetizer := Some \<lparr>pz_MTU = 1200, pz_PayloadType = 0, pz_SSRC = 0,
             pz_Payloader = VP8Payloader, pz_Sequencer = 3, pz_ClockRate = 90000\<rparr>\<rparr>)
       (exampleContext rtxCapability 97)
     = (Some ErrNoPayloaderForCodec,
        \<lparr>packetizer = Some \<lparr>pz_MTU = 1200, pz_PayloadType = 0, pz_SSRC = 0,
             pz_Payloader = VP8Payloader, pz_Sequencer = 3, pz_ClockRate = 90000\<rparr>,
         rtpTrack = \<lparr>bindings = [\<lparr>ssrc = 1, payloadType = 97, writeStream = 7\<rparr>],
                     codec = rtxCapability, id_track = ''audio'', streamID = ''pion''\<rparr>\<rparr>)
   \<and> payloaderFor (MimeType rtxCapability) = None
   \<and> length (bindings (rtpTrack (exampleSampleTrack rtxCapability))) + 1 = 1"
proof -
  have b: "TrackLocalStaticSample_Bind 1200 5
       ((exampleSampleTrack rtxCapability)
          \<lparr>packetizer := Some \<lparr>pz_MTU = 1200, pz_PayloadType = 0, pz_SSRC = 0,
             pz_Payloader = VP8Payloader, pz_Sequencer = 3, pz_ClockRate = 90000\<rparr>\<rparr>)
       (exampleContext rtxCapability 97)
     = (Some ErrNoPayloaderForCodec,
        \<lparr>packetizer = Some \<lparr>pz_MTU = 1200, pz_PayloadType = 0, pz_SSRC = 0,
             pz_Payloader = VP8Payloader, pz_Sequencer = 3, pz_ClockRate = 90000\<rparr>,
         rtpTrack = \<lparr>bindings = [\<lparr>ssrc = 1, payloadType = 97, writeStream = 7\<rparr>],
                     codec = rtxCapability, id_track = ''audio'', streamID = ''pion''\<rparr>\<rparr>)"
    by (simp add: Sample_Bind_unfold exampleSampleTrack_def exampleContext_def rtxCapability_def
        RTPCodecCapability.defs payloaderFor_def mimeType_defs bindingFor_def)
  from Sample_Bind_NoPayloader_keeps_binding [OF b] b show ?thesis
    by (simp add: exampleSampleTrack_def)
qed

section \<open>Kind\<close>

text \<open>
  Claim C9. \<^verbatim>\<open>Kind()\<close> of a raw-packet track is the video kind whatever codec the
  track was built with (opus and PCMU included), and the sample track's \<^verbatim>\<open>Kind()\<close>,
  which asks the wrapped track, is the video kind as well.
\<close>

theorem Kind_always_video:
  "TrackLocalStaticRTP_Kind s = RTPCodecTypeVideo
   \<and> TrackLocalStaticSample_Kind ss = RTPCodecTypeVideo
   \<and> (case NewTrackLocalStaticRTP c i sid of
        Inl err \<Rightarrow> False
      | Inr r \<Rightarrow> codec r = c \<and> TrackLocalStaticRTP_Kind r = RTPCodecTypeVideo)
   \<and> (case NewTrackLocalStaticSample c i sid of
        Inl err \<Rightarrow> False
      | Inr (r :: 'q TrackLocalStaticSample) \<Rightarrow>
          codec (rtpTrack r) = c \<and> TrackLocalStaticSample_Kind r = RTPCodecTypeVideo)"
  by (simp add: TrackLocalStaticRTP_Kind_def TrackLocalStaticSample_Kind_def
      NewTrackLocalStaticRTP_def NewTrackLocalStaticSample_def)

section \<open>WriteRTP\<close>

lemma WriteRTP_loop_logged:
  "WriteRTP_loop (logged wr) bs p errs (w, calls) = (errs', p', (w', calls'))
   \<Longrightarrow> \<exists>new. calls' = calls @ new
         \<and> map call_sink new = map writeStream bs
         \<and> map (\<lambda>c. hdr_SSRC (call_header c)) new = map ssrc bs
         \<and> map (\<lambda>c. hdr_PayloadType (call_header c)) new = map payloadType bs
         \<and> errs' = errs @ List.map_filter call_result new"
proof (induction bs arbitrary: p errs w calls)
  case Nil
  then show ?case by simp
next
  case (Cons b bs)
  define h where "h = (Header p)\<lparr>hdr_SSRC := ssrc b, hdr_PayloadType := payloadType b\<rparr>"
  obtain r h1 pl1 w1 where r: "wr (writeStream b) h (Payload p) w = (r, h1, pl1, w1)"
    by (cases "wr (writeStream b) h (Payload p) w")
  define c where "c = \<lparr>call_sink = writeStream b, call_header = h,
                        call_payload = Payload p, call_result = r\<rparr>"
  have step: "WriteRTP_loop (logged wr) (b # bs) p errs (w, calls)
      = WriteRTP_loop (logged wr) bs \<lparr>Header = h1, Payload = pl1\<rparr>
          (errs @ (case r of None \<Rightarrow> [] | Some e \<Rightarrow> [e])) (w1, calls @ [c])"
    using r by (cases r) (simp_all add: logged_def h_def c_def Let_def)
  from Cons.prems step have
    "WriteRTP_loop (logged wr) bs \<lparr>Header = h1, Payload = pl1\<rparr>
       (errs @ (case r of None \<Rightarrow> [] | Some e \<Rightarrow> [e])) (w1, calls @ [c])
       = (errs', p', (w', calls'))" by simp
  from Cons.IH [OF this] obtain new where new:
    "calls' = (calls @ [c]) @ new"
    "map call_sink new = map writeStream bs"
    "map (\<lambda>c. hdr_SSRC (call_header c)) new = map ssrc bs"
    "map (\<lambda>c. hdr_PayloadType (call_header c)) new = map payloadType bs"
    "errs' = (errs @ (case r of None \<Rightarrow> [] | Some e \<Rightarrow> [e]))
               @ List.map_filter call_result new"
    by blast
  have "calls' = calls @ (c # new)" using new(1) by simp
  moreover have "map call_sink (c # new) = map writeStream (b # bs)"
    using new(2) by (simp add: c_def)
  moreover have "map (\<lambda>c. hdr_SSRC (call_header c)) (c # new) = map ssrc (b # bs)"
    using new(3) by (simp add: c_def h_def)
  moreover have "map (\<lambda>c. hdr_PayloadType (call_header c)) (c # new)
      = map payloadType (b # bs)"
    using new(4) by (simp add: c_def h_def)
  moreover have "errs' = errs @ List.map_filter call_result (c # new)"
    using new(5) by (cases r) (simp_all add: c_def)
  ultimately show ?case by blast
qed

text \<open>
  Claim C5. \<^verbatim>\<open>WriteRTP\<close> calls the write sink of every current binding, in the
  order of the bindings and whether or not an earlier sink failed, and the header each
  sink receives carries that binding's SSRC and payload type (whatever the sinks before
  it did to the packet). Its result is \<^verbatim>\<open>util.FlattenErrs\<close> of the errors the failed
  sinks returned, in order: \<^verbatim>\<open>nil\<close> exactly when every sink succeeded, and otherwise
  the aggregate of all those errors. The sinks are any \<open>wr\<close>; \<open>logged wr\<close> records
  each call next to the sinks' own state.
\<close>

theorem WriteRTP_fan_out:
  assumes "TrackLocalStaticRTP_WriteRTP (logged wr) s p (w, calls) = (res, p', (w', calls'))"
  shows "\<exists>new. calls' = calls @ new
           \<and> map call_sink new = map writeStream (bindings s)
           \<and> map (\<lambda>c. hdr_SSRC (call_header c)) new = map ssrc (bindings s)
           \<and> map (\<lambda>c. hdr_PayloadType (call_header c)) new = map payloadType (bindings s)
           \<and> res = FlattenErrs (List.map_filter call_result new)
           \<and> (res = None) = list_all (\<lambda>c. call_result c = None) new
           \<and> (res \<noteq> None) = (res = Some (multiError (List.map_filter call_result new)))"
proof -
  obtain errs where l: "WriteRTP_loop (logged wr) (bindings s) p [] (w, calls)
      = (errs, p', (w', calls'))" and res: "res = FlattenErrs errs"
    using assms
    by (cases "WriteRTP_loop (logged wr) (bindings s) p [] (w, calls)")
       (auto simp: TrackLocalStaticRTP_WriteRTP_def)
  from WriteRTP_loop_logged [OF l] obtain new where new:
    "calls' = calls @ new"
    "map call_sink new = map writeStream (bindings s)"
    "map (\<lambda>c. hdr_SSRC (call_header c)) new = map ssrc (bindings s)"
    "map (\<lambda>c. hdr_PayloadType (call_header c)) new = map payloadType (bindings s)"
    "errs = List.map_filter call_result new"
    by auto
  have nil: "(List.map_filter call_result new = []) = list_all (\<lambda>c. call_result c = None) new"
    by (induction new) (auto split: option.splits)
  show ?thesis
    using new nil res by (auto simp: FlattenErrs_def)
qed

theorem WriteRTP_fan_out_witness:
  "TrackLocalStaticRTP_WriteRTP (logged exampleSinks) exampleRTPTrack examplePacket (0, [])
     = (Some (multiError [WriteError ''closed'']),
        \<lparr>Header = exampleHeader False 33 98, Payload = [0, 2, 3]\<rparr>,
        (3, exampleCalls))
   \<and> (\<exists>new. exampleCalls = [] @ new
          \<and> map call_sink new = map writeStream (bindings exampleRTPTrack)
          \<and> map (\<lambda>c. hdr_SSRC (call_header c)) new = map ssrc (bindings exampleRTPTrack)
          \<and> map (\<lambda>c. hdr_PayloadType (call_header c)) new
              = map payloadType (bindings exampleRTPTrack)
          \<and> Some (multiError [WriteError ''closed''])
              = FlattenErrs (List.map_filter call_result new)
          \<and> (Some (multiError [WriteError ''closed'']) = None)
              = list_all (\<lambda>c. call_result c = None) new
          \<and> (Some (multiError [WriteError ''closed'']) \<noteq> None)
              = (Some (multiError [WriteError ''closed''])
                   = Some (multiError (List.map_filter call_result new))))"
proof -
  have b: "TrackLocalStaticRTP_WriteRTP (logged exampleSinks) exampleRTPTrack examplePacket
       (0, [])
     = (Some (multiError [WriteError ''closed'']),
        \<lparr>Header = exampleHeader False 33 98, Payload = [0, 2, 3]\<rparr>,
        (3, exampleCalls))"
    by (simp add: TrackLocalStaticRTP_WriteRTP_def exampleRTPTrack_def examplePacket_def
        exampleHeader_def exampleCalls_def exampleSinks_def logged_def FlattenErrs_def)
  from WriteRTP_fan_out [OF b] b show ?thesis by (intro conjI)
qed

section \<open>Codec registration and negotiation\<close>

lemma stampedCodecs_Nil: "stampedCodecs clock k [] = []"
  by (simp add: stampedCodecs_def)

lemma stampedCodecs_Cons:
  "stampedCodecs clock k (c # cs)
     = c\<lparr>statsID := statsID_of (clock k)\<rparr> # stampedCodecs clock (Suc k) cs"
  by (simp add: stampedCodecs_def upt_conv_Cons del: upt_Suc)

lemma map_PayloadType_stampedCodecs:
  "map PayloadType (stampedCodecs clock k cs) = map PayloadType cs"
  by (induction cs arbitrary: k) (simp_all add: stampedCodecs_Nil stampedCodecs_Cons)

lemma map_MimeType_stampedCodecs:
  "map MimeType (stampedCodecs clock k cs) = map MimeType cs"
  by (induction cs arbitrary: k) (simp_all add: stampedCodecs_Nil stampedCodecs_Cons)

lemma map_negotiated_stampedCodecs:
  "map negotiated (stampedCodecs clock k cs) = map negotiated cs"
  by (induction cs arbitrary: k) (simp_all add: stampedCodecs_Nil stampedCodecs_Cons)

lemma registerCodecs_audio:
  "registerCodecs clock k cs RTPCodecTypeAudio m
     = (None, m\<lparr>audioCodecs := audioCodecs m @ stampedCodecs clock k cs\<rparr>)"
  by (induction cs arbitrary: k m)
     (simp_all add: stampedCodecs_Nil stampedCodecs_Cons RegisterCodec_def)

lemma registerCodecs_video:
  "registerCodecs clock k cs RTPCodecTypeVideo m
     = (None, m\<lparr>videoCodecs := videoCodecs m @ stampedCodecs clock k cs\<rparr>)"
  by (induction cs arbitrary: k m)
     (simp_all add: stampedCodecs_Nil stampedCodecs_Cons RegisterCodec_def)

lemma RegisterHeaderExtension_frame:
  "fst (RegisterHeaderExtension u typ m) = None"
  "audioCodecs (snd (RegisterHeaderExtension u typ m)) = audioCodecs m"
  "videoCodecs (snd (RegisterHeaderExtension u typ m)) = videoCodecs m"
  "negotiatedAudio (snd (RegisterHeaderExtension u typ m)) = negotiatedAudio m"
  "negotiatedVideo (snd (RegisterHeaderExtension u typ m)) = negotiatedVideo m"
  by (simp_all add: RegisterHeaderExtension_def Let_def split: prod.splits)

lemma registerExtensions_frame:
  "fst (registerExtensions us typ m) = None
   \<and> audioCodecs (snd (registerExtensions us typ m)) = audioCodecs m
   \<and> videoCodecs (snd (registerExtensions us typ m)) = videoCodecs m
   \<and> negotiatedAudio (snd (registerExtensions us typ m)) = negotiatedAudio m
   \<and> negotiatedVideo (snd (registerExtensions us typ m)) = negotiatedVideo m"
proof (induction us arbitrary: m)
  case Nil
  show ?case by simp
next
  case (Cons u us)
  obtain m1 where h: "RegisterHeaderExtension u typ m = (None, m1)"
    using RegisterHeaderExtension_frame(1) [of u "typ" m]
    by (cases "RegisterHeaderExtension u typ m") simp
  from RegisterHeaderExtension_frame(2-5) [of u "typ" m] h
  have "audioCodecs m1 = audioCodecs m" "videoCodecs m1 = videoCodecs m"
    "negotiatedAudio m1 = negotiatedAudio m" "negotiatedVideo m1 = negotiatedVideo m"
    by simp_all
  with Cons.IH [of m1] h show ?case by simp
qed

lemma RegisterDefaultCodecs_result:
  "fst (RegisterDefaultCodecs clock m) = None"
  "audioCodecs (snd (RegisterDefaultCodecs clock m))
     = audioCodecs m @ stampedCodecs clock 0 defaultAudioCodecs"
  "videoCodecs (snd (RegisterDefaultCodecs clock m))
     = videoCodecs m @ stampedCodecs clock (length defaultAudioCodecs) defaultVideoCodecs"
  "negotiatedAudio (snd (RegisterDefaultCodecs clock m)) = negotiatedAudio m"
  "negotiatedVideo (snd (RegisterDefaultCodecs clock m)) = negotiatedVideo m"
proof -
  define m1 where
    "m1 = m\<lparr>audioCodecs := audioCodecs m @ stampedCodecs clock 0 defaultAudioCodecs\<rparr>"
  obtain m2 where e2:
    "registerExtensions defaultAudioExtensions RTPCodecTypeAudio m1 = (None, m2)"
    using registerExtensions_frame [of defaultAudioExtensions RTPCodecTypeAudio m1]
    by (cases "registerExtensions defaultAudioExtensions RTPCodecTypeAudio m1") simp
  define m3 where "m3 = m2\<lparr>videoCodecs := videoCodecs m2
      @ stampedCodecs clock (length defaultAudioCodecs) defaultVideoCodecs\<rparr>"
  obtain m4 where e4:
    "registerExtensions defaultVideoExtensions RTPCodecTypeVideo m3 = (None, m4)"
    using registerExtensions_frame [of defaultVideoExtensions RTPCodecTypeVideo m3]
    by (cases "registerExtensions defaultVideoExtensions RTPCodecTypeVideo m3") simp
  have r: "RegisterDefaultCodecs clock m = (None, m4)"
    by (simp add: RegisterDefaultCodecs_def registerCodecs_audio registerCodecs_video
        e2 [unfolded m1_def] e4 [unfolded m3_def])
  from registerExtensions_frame [of defaultAudioExtensions RTPCodecTypeAudio m1] e2
  have f2: "audioCodecs m2 = audioCodecs m1" "videoCodecs m2 = videoCodecs m1"
    "negotiatedAudio m2 = negotiatedAudio m1" "negotiatedVideo m2 = negotiatedVideo m1"
    by simp_all
  from registerExtensions_frame [of defaultVideoExtensions RTPCodecTypeVideo m3] e4
  have f4: "audioCodecs m4 = audioCodecs m3" "videoCodecs m4 = videoCodecs m3"
    "negotiatedAudio m4 = negotiatedAudio m3" "negotiatedVideo m4 = negotiatedVideo m3"
    by simp_all
  show "fst (RegisterDefaultCodecs clock m) = None" by (simp add: r)
  show "audioCodecs (snd (RegisterDefaultCodecs clock m))
     = audioCodecs m @ stampedCodecs clock 0 defaultAudioCodecs"
    by (simp add: r f4 f2 m3_def m1_def)
  show "videoCodecs (snd (RegisterDefaultCodecs clock m))
     = videoCodecs m @ stampedCodecs clock (length defaultAudioCodecs) defaultVideoCodecs"
    by (simp add: r f4 f2 m3_def m1_def)
  show "negotiatedAudio (snd (RegisterDefaultCodecs clock m)) = negotiatedAudio m"
    by (simp add: r f4 f2 m3_def m1_def)
  show "negotiatedVideo (snd (RegisterDefaultCodecs clock m)) = negotiatedVideo m"
    by (simp add: r f4 f2 m3_def m1_def)
qed

lemma updateFromRemoteDescription_loop_frame:
  "audioCodecs (updateFromRemoteDescription_loop ds m) = audioCodecs m
   \<and> videoCodecs (updateFromRemoteDescription_loop ds m) = videoCodecs m
   \<and> headerExtensions (updateFromRemoteDescription_loop ds m) = headerExtensions m"
  by (induction ds arbitrary: m) simp_all

lemma negotiatedCodecsForType_unfiltered:
  "negotiatedCodecsForType typ m = getCodecsByKind typ m"
  by (cases "typ") (simp_all add: negotiatedCodecsForType_def getCodecsByKind_def)

lemma EqualFold_audio: "EqualFold ''audio'' ''audio''" "\<not> EqualFold ''audio'' ''video''"
  by (simp_all add: EqualFold_def toLower_def)

lemma defaultEngine_audioCodecs:
  "audioCodecs defaultEngine
     = [(mkCodec mimeTypeOpus 48000 2 ''minptime=10;useinbandfec=1''
           [\<lparr>fb_Type = ''transport-cc'', fb_Parameter = []\<rparr>] 111)
          \<lparr>statsID := statsID_of (exampleClock 0)\<rparr>,
        (mkCodec mimeTypeG722 8000 0 [] [] 9)\<lparr>statsID := statsID_of (exampleClock 1)\<rparr>,
        (mkCodec mimeTypePCMU 8000 0 [] [] 0)\<lparr>statsID := statsID_of (exampleClock 2)\<rparr>,
        (mkCodec mimeTypePCMA 8000 0 [] [] 8)\<lparr>statsID := statsID_of (exampleClock 3)\<rparr>]"
  by (simp add: defaultEngine_def RegisterDefaultCodecs_result emptyMediaEngine_def
      defaultAudioCodecs_def stampedCodecs_Cons stampedCodecs_Nil numeral_2_eq_2
      numeral_3_eq_3)

lemma defaultEngine_video_payloadTypes:
  "map PayloadType (videoCodecs defaultEngine)
     = [96, 97, 98, 99, 100, 101, 102, 121, 127, 120, 125, 107, 108, 109, 127, 120,
        123, 118, 116]"
  by (simp add: defaultEngine_def RegisterDefaultCodecs_result emptyMediaEngine_def
      map_PayloadType_stampedCodecs defaultVideoCodecs_def mkCodec_def)

lemma getCodecByPayload_loop_None:
  "pt \<notin> set (map PayloadType cs) \<Longrightarrow> getCodecByPayload_loop pt cs = None"
  by (induction cs) auto

lemma negotiatedEngine_fields:
  "negotiatedAudio negotiatedEngine = True"
  "negotiatedVideo negotiatedEngine = False"
  "audioCodecs negotiatedEngine = audioCodecs defaultEngine"
  "videoCodecs negotiatedEngine = videoCodecs defaultEngine"
proof -
  have flags: "negotiatedAudio defaultEngine = False" "negotiatedVideo defaultEngine = False"
    by (simp_all add: defaultEngine_def RegisterDefaultCodecs_result emptyMediaEngine_def)
  show "negotiatedAudio negotiatedEngine = True"
    by (simp add: negotiatedEngine_def updateFromRemoteDescription_def opusRemoteDescription_def
        flags EqualFold_audio)
  show "negotiatedVideo negotiatedEngine = False"
    by (simp add: negotiatedEngine_def updateFromRemoteDescription_def opusRemoteDescription_def
        flags EqualFold_audio)
  show "audioCodecs negotiatedEngine = audioCodecs defaultEngine"
    by (simp add: negotiatedEngine_def updateFromRemoteDescription_def
        updateFromRemoteDescription_loop_frame)
  show "videoCodecs negotiatedEngine = videoCodecs defaultEngine"
    by (simp add: negotiatedEngine_def updateFromRemoteDescription_def
        updateFromRemoteDescription_loop_frame)
qed

text \<open>
  Claim C1. After \<^verbatim>\<open>RegisterDefaultCodecs\<close>, negotiating a remote description whose
  one audio section maps payload type 111 to opus/48000/2 should mark the local opus
  entry negotiated (the repository's test "Enable Opus" asserts it). The source sets
  \<^verbatim>\<open>negotiatedAudio\<close> and leaves \<^verbatim>\<open>negotiatedVideo\<close> false, but the part of the loop
  that would update the codecs is a comment: the opus entry found under payload type
  111 still has \<^verbatim>\<open>negotiated = false\<close>, as has every audio entry.
\<close>

theorem updateFromRemoteDescription_opus_not_negotiated:
  "fst (RegisterDefaultCodecs exampleClock emptyMediaEngine) = None
   \<and> fst (updateFromRemoteDescription opusRemoteDescription defaultEngine) = None
   \<and> negotiatedAudio negotiatedEngine = True
   \<and> negotiatedVideo negotiatedEngine = False
   \<and> (case getCodecByPayload 111 negotiatedEngine of
         Inl err \<Rightarrow> False
       | Inr c \<Rightarrow> MimeType c = mimeTypeOpus \<and> PayloadType c = 111 \<and> negotiated c = False)
   \<and> map negotiated (audioCodecs negotiatedEngine) = [False, False, False, False]"
proof -
  have v: "getCodecByPayload_loop 111 (videoCodecs defaultEngine) = None"
    by (rule getCodecByPayload_loop_None) (simp add: defaultEngine_video_payloadTypes)
  show ?thesis
    by (simp add: RegisterDefaultCodecs_result updateFromRemoteDescription_def
        negotiatedEngine_fields getCodecByPayload_def v defaultEngine_audioCodecs mkCodec_def)
qed

text \<open>
  Claim C3. Once a remote description has been negotiated, the negotiated codecs of a
  kind should be the entries whose negotiated flag is true (the source's comment
  promises "a properly filtered view"). \<^verbatim>\<open>negotiatedCodecsForType\<close> returns the whole
  catalog of the kind at all times (\<open>negotiatedCodecsForType_unfiltered\<close>): after the
  negotiation of claim C1 it returns all four audio entries, none of which is flagged.
\<close>

theorem negotiatedCodecsForType_returns_unnegotiated:
  "negotiatedAudio negotiatedEngine = True
   \<and> negotiatedCodecsForType RTPCodecTypeAudio negotiatedEngine = audioCodecs defaultEngine
   \<and> length (negotiatedCodecsForType RTPCodecTypeAudio negotiatedEngine) = 4
   \<and> filter negotiated (audioCodecs negotiatedEngine) = []"
  by (simp add: negotiatedCodecsForType_def negotiatedEngine_fields defaultEngine_audioCodecs
      mkCodec_def)

lemma RegisterCodec_calls_payloadTypes:
  "map PayloadType (audioCodecs (RegisterCodec_calls calls m))
     = map PayloadType (audioCodecs m)
       @ map PayloadType (registeredFor RTPCodecTypeAudio calls)
   \<and> map PayloadType (videoCodecs (RegisterCodec_calls calls m))
     = map PayloadType (videoCodecs m)
       @ map PayloadType (registeredFor RTPCodecTypeVideo calls)"
proof (induction calls arbitrary: m)
  case Nil
  show ?case by (simp add: registeredFor_def)
next
  case (Cons x calls)
  obtain now c k where x: "x = (now, c, k)" by (cases x)
  show ?case
    unfolding x using Cons.IH [of "snd (RegisterCodec now c k m)"]
    by (cases k) (simp_all add: RegisterCodec_def registeredFor_def)
qed

text \<open>
  Claim C4, as amended. \<^verbatim>\<open>RegisterCodec\<close> appends and compares nothing: after any
  sequence of calls the payload types of a kind's catalog are those it held before,
  followed by those registered for that kind, in call order. On a fresh registry they
  are therefore pairwise distinct exactly when the registered ones are. The audio
  catalog \<^verbatim>\<open>RegisterDefaultCodecs\<close> builds on a fresh registry holds the payload types
  111, 9, 0 and 8, which are pairwise distinct.
\<close>

theorem RegisterCodec_payload_types:
  "map PayloadType (audioCodecs (RegisterCodec_calls calls m))
     = map PayloadType (audioCodecs m)
       @ map PayloadType (registeredFor RTPCodecTypeAudio calls)
   \<and> map PayloadType (videoCodecs (RegisterCodec_calls calls m))
     = map PayloadType (videoCodecs m)
       @ map PayloadType (registeredFor RTPCodecTypeVideo calls)
   \<and> distinct (map PayloadType (audioCodecs (RegisterCodec_calls calls emptyMediaEngine)))
     = distinct (map PayloadType (registeredFor RTPCodecTypeAudio calls))
   \<and> distinct (map PayloadType (videoCodecs (RegisterCodec_calls calls emptyMediaEngine)))
     = distinct (map PayloadType (registeredFor RTPCodecTypeVideo calls))
   \<and> fst (RegisterDefaultCodecs clock emptyMediaEngine) = None
   \<and> map PayloadType (audioCodecs (snd (RegisterDefaultCodecs clock emptyMediaEngine)))
     = [111, 9, 0, 8]
   \<and> distinct (map PayloadType
        (audioCodecs (snd (RegisterDefaultCodecs clock emptyMediaEngine))))"
proof -
  have d: "map PayloadType (audioCodecs (snd (RegisterDefaultCodecs clock emptyMediaEngine)))
     = [111, 9, 0, 8]"
    by (simp add: RegisterDefaultCodecs_result emptyMediaEngine_def
        map_PayloadType_stampedCodecs defaultAudioCodecs_def mkCodec_def)
  have e: "audioCodecs emptyMediaEngine = []" "videoCodecs emptyMediaEngine = []"
    by (simp_all add: emptyMediaEngine_def)
  have f: "fst (RegisterDefaultCodecs clock emptyMediaEngine) = None"
    by (simp add: RegisterDefaultCodecs_result)
  have dd: "distinct (map PayloadType
        (audioCodecs (snd (RegisterDefaultCodecs clock emptyMediaEngine))))"
    by (simp add: d)
  show ?thesis
    using RegisterCodec_calls_payloadTypes [of calls m]
      RegisterCodec_calls_payloadTypes [of calls emptyMediaEngine]
    by (simp add: d dd e f)
qed

text \<open>
  The claim as stated fails: two \<^verbatim>\<open>RegisterCodec\<close> calls that give opus and PCMU the
  same payload type both succeed, and the audio catalog then holds 111 twice.
\<close>

theorem RegisterCodec_duplicate_payload_type:
  "fst (RegisterCodec 0 (mkCodec mimeTypeOpus 48000 2 [] [] 111) RTPCodecTypeAudio
          emptyMediaEngine) = None
   \<and> fst (RegisterCodec 1 (mkCodec mimeTypePCMU 8000 0 [] [] 111) RTPCodecTypeAudio
          (snd (RegisterCodec 0 (mkCodec mimeTypeOpus 48000 2 [] [] 111) RTPCodecTypeAudio
                  emptyMediaEngine))) = None
   \<and> map PayloadType (audioCodecs (RegisterCodec_calls
          [(0, mkCodec mimeTypeOpus 48000 2 [] [] 111, RTPCodecTypeAudio),
           (1, mkCodec mimeTypePCMU 8000 0 [] [] 111, RTPCodecTypeAudio)]
          emptyMediaEngine)) = [111, 111]
   \<and> \<not> distinct (map PayloadType (audioCodecs (RegisterCodec_calls
          [(0, mkCodec mimeTypeOpus 48000 2 [] [] 111, RTPCodecTypeAudio),
           (1, mkCodec mimeTypePCMU 8000 0 [] [] 111, RTPCodecTypeAudio)]
          emptyMediaEngine)))"
  by (simp add: RegisterCodec_def emptyMediaEngine_def mkCodec_def)

text \<open>
  The video list of \<^verbatim>\<open>RegisterDefaultCodecs\<close> itself names the payload types 127
  and 120 twice (the H264 entry with packetization-mode 0, profile 42001f, and its rtx
  entry stand twice in the source).
\<close>

lemma defaultEngine_video_payloadTypes_repeat:
  "\<not> distinct (map PayloadType (videoCodecs defaultEngine))"
  by (simp add: defaultEngine_video_payloadTypes)

section \<open>Header extensions\<close>

lemma extensionIndex_loop_absent:
  "u \<notin> set (map uri hs) \<Longrightarrow> extensionIndex_loop u hs i found = found"
  by (induction hs arbitrary: i found) auto

lemma extensionIndex_loop_present:
  "distinct (map uri hs) \<Longrightarrow> j < length hs \<Longrightarrow> uri (hs ! j) = u
   \<Longrightarrow> extensionIndex_loop u hs i found = Some (i + j)"
proof (induction hs arbitrary: i j found)
  case Nil
  then show ?case by simp
next
  case (Cons e es)
  show ?case
  proof (cases j)
    case 0
    with Cons.prems have "uri e = u" "u \<notin> set (map uri es)" by auto
    with 0 show ?thesis by (simp add: extensionIndex_loop_absent)
  next
    case (Suc j')
    with Cons.prems have j': "j' < length es" "uri (es ! j') = u" "distinct (map uri es)"
      by auto
    then have "u \<in> set (map uri es)" by (metis length_map nth_map nth_mem)
    with Cons.prems have "uri e \<noteq> u" by auto
    with Cons.IH [OF j'(3) j'(1) j'(2)] Suc show ?thesis by simp
  qed
qed

lemma RegisterHeaderExtension_absent:
  assumes "u \<notin> set (map uri (headerExtensions m))"
  shows "RegisterHeaderExtension u typ m
     = (None, m\<lparr>headerExtensions := headerExtensions m @
          [registeredEntry u typ (length (headerExtensions m))
             \<lparr>ok = False, id_ext = 0, uri = [], isAudio = False, isVideo = False\<rparr>]\<rparr>)"
  using assms
  by (cases "typ")
     (simp_all add: RegisterHeaderExtension_def extensionIndex_loop_absent registeredEntry_def
        Let_def)

lemma RegisterHeaderExtension_present:
  assumes "distinct (map uri (headerExtensions m))" "j < length (headerExtensions m)"
    "uri (headerExtensions m ! j) = u"
  shows "RegisterHeaderExtension u typ m
     = (None, m\<lparr>headerExtensions :=
          (headerExtensions m)[j := registeredEntry u typ j (headerExtensions m ! j)]\<rparr>)"
proof -
  have "extensionIndex_loop u (headerExtensions m) 0 None = Some j"
    using extensionIndex_loop_present [OF assms, of 0 None] by simp
  with assms(2) show ?thesis
    by (cases "typ") (simp_all add: RegisterHeaderExtension_def registeredEntry_def Let_def)
qed

lemma filter_uri_unique:
  "distinct (map uri hs) \<Longrightarrow> i < length hs \<Longrightarrow> uri (hs ! i) = u
   \<Longrightarrow> filter (\<lambda>e. uri e = u) hs = [hs ! i]"
proof (induction hs arbitrary: i)
  case Nil
  then show ?case by simp
next
  case (Cons e es)
  show ?case
  proof (cases i)
    case 0
    with Cons.prems have "uri e = u" "u \<notin> set (map uri es)" by auto
    then have "\<forall>x\<in>set es. uri x \<noteq> u" by (metis image_eqI set_map)
    then have "filter (\<lambda>e. uri e = u) es = []" by (simp add: filter_empty_conv)
    with 0 \<open>uri e = u\<close> show ?thesis by simp
  next
    case (Suc i')
    with Cons.prems have i': "i' < length es" "uri (es ! i') = u" "distinct (map uri es)"
      by auto
    then have "u \<in> set (map uri es)" by (metis length_map nth_map nth_mem)
    with Cons.prems have "uri e \<noteq> u" by auto
    with Cons.IH [OF i'(3) i'(1) i'(2)] Suc show ?thesis by simp
  qed
qed

lemma map_uri_list_update:
  "j < length hs \<Longrightarrow> uri (hs ! j) = u
   \<Longrightarrow> map uri (hs[j := registeredEntry u typ j (hs ! j)]) = map uri hs"
  by (simp add: map_update registeredEntry_def list_update_same_conv)

lemma RegisterHeaderExtension_distinct:
  assumes "distinct (map uri (headerExtensions m))"
  shows "distinct (map uri (headerExtensions (snd (RegisterHeaderExtension u typ m))))"
proof (cases "u \<in> set (map uri (headerExtensions m))")
  case True
  then obtain j where j: "j < length (headerExtensions m)" "uri (headerExtensions m ! j) = u"
    by (metis in_set_conv_nth length_map nth_map)
  show ?thesis
    using assms by (simp add: RegisterHeaderExtension_present [OF assms j] map_uri_list_update j)
next
  case False
  then show ?thesis
    using assms by (simp add: RegisterHeaderExtension_absent registeredEntry_def)
qed

lemma registerCodecs_headerExtensions:
  "headerExtensions (snd (registerCodecs clock k cs typ m)) = headerExtensions m"
proof (induction cs arbitrary: k m)
  case Nil
  show ?case by simp
next
  case (Cons c cs)
  show ?case
    using Cons.IH by (cases "typ") (simp_all add: RegisterCodec_def)
qed

lemma registerCodecs_fst:
  "typ \<noteq> RTPCodecTypeOther \<Longrightarrow> fst (registerCodecs clock k cs typ m) = None"
  by (induction cs arbitrary: k m; cases "typ") (simp_all add: RegisterCodec_def)

lemma registerExtensions_distinct:
  "distinct (map uri (headerExtensions m))
   \<Longrightarrow> fst (registerExtensions us typ m) = None
       \<and> distinct (map uri (headerExtensions (snd (registerExtensions us typ m))))"
proof (induction us arbitrary: m)
  case Nil
  then show ?case by simp
next
  case (Cons u us)
  obtain e1 m1 where h: "RegisterHeaderExtension u typ m = (e1, m1)"
    by (cases "RegisterHeaderExtension u typ m")
  have "e1 = None" using h by (simp add: RegisterHeaderExtension_def Let_def split: prod.splits)
  moreover have "distinct (map uri (headerExtensions m1))"
    using RegisterHeaderExtension_distinct [OF Cons.prems, of u "typ"] h by simp
  ultimately show ?case using Cons.IH [of m1] h by simp
qed

lemma RegisterDefaultCodecs_distinct:
  assumes "distinct (map uri (headerExtensions m))"
  shows "distinct (map uri (headerExtensions (snd (RegisterDefaultCodecs clock m))))"
proof -
  obtain m1 where e1: "registerCodecs clock 0 defaultAudioCodecs RTPCodecTypeAudio m = (None, m1)"
    using registerCodecs_fst [of RTPCodecTypeAudio clock 0 defaultAudioCodecs m]
    by (cases "registerCodecs clock 0 defaultAudioCodecs RTPCodecTypeAudio m") simp
  have d1: "distinct (map uri (headerExtensions m1))"
    using registerCodecs_headerExtensions [of clock 0 defaultAudioCodecs RTPCodecTypeAudio m]
      e1 assms by simp
  obtain m2 where e2: "registerExtensions defaultAudioExtensions RTPCodecTypeAudio m1 = (None, m2)"
    using registerExtensions_distinct [OF d1, of defaultAudioExtensions RTPCodecTypeAudio]
    by (cases "registerExtensions defaultAudioExtensions RTPCodecTypeAudio m1") simp
  have d2: "distinct (map uri (headerExtensions m2))"
    using registerExtensions_distinct [OF d1, of defaultAudioExtensions RTPCodecTypeAudio] e2
    by simp
  obtain m3 where e3: "registerCodecs clock (length defaultAudioCodecs) defaultVideoCodecs
      RTPCodecTypeVideo m2 = (None, m3)"
    using registerCodecs_fst [of RTPCodecTypeVideo clock "length defaultAudioCodecs"
        defaultVideoCodecs m2]
    by (cases "registerCodecs clock (length defaultAudioCodecs) defaultVideoCodecs
      RTPCodecTypeVideo m2") simp
  have d3: "distinct (map uri (headerExtensions m3))"
    using registerCodecs_headerExtensions [of clock "length defaultAudioCodecs"
        defaultVideoCodecs RTPCodecTypeVideo m2] e3 d2 by simp
  obtain m4 where e4: "registerExtensions defaultVideoExtensions RTPCodecTypeVideo m3 = (None, m4)"
    using registerExtensions_distinct [OF d3, of defaultVideoExtensions RTPCodecTypeVideo]
    by (cases "registerExtensions defaultVideoExtensions RTPCodecTypeVideo m3") simp
  have d4: "distinct (map uri (headerExtensions m4))"
    using registerExtensions_distinct [OF d3, of defaultVideoExtensions RTPCodecTypeVideo] e4
    by simp
  have "RegisterDefaultCodecs clock m = (None, m4)"
    by (simp add: RegisterDefaultCodecs_def e1 e2 e3 e4)
  with d4 show ?thesis by simp
qed

lemma reachable_distinct_uri:
  "reachable m \<Longrightarrow> distinct (map uri (headerExtensions m))"
proof (induction rule: reachable.induct)
  case fresh
  show ?case by (simp add: emptyMediaEngine_def)
next
  case (codec m now c kind)
  then show ?case by (cases kind) (simp_all add: RegisterCodec_def)
next
  case (extension m u kind)
  then show ?case by (simp add: RegisterHeaderExtension_distinct)
next
  case (defaults m clock)
  then show ?case by (simp add: RegisterDefaultCodecs_distinct)
next
  case (negotiation m desc)
  then show ?case
    by (simp add: updateFromRemoteDescription_def updateFromRemoteDescription_loop_frame)
qed

text \<open>
  Claim C8. On every registry a program can build, registering one uri for audio and
  for video (in either order) leaves exactly one entry with that uri; it carries both
  kind flags, and its id is the one it had after the first of the two registrations
  (its index in the catalog).
\<close>

theorem RegisterHeaderExtension_both_kinds:
  assumes "reachable m"
    and "(k1 = RTPCodecTypeAudio \<and> k2 = RTPCodecTypeVideo)
         \<or> (k1 = RTPCodecTypeVideo \<and> k2 = RTPCodecTypeAudio)"
    and "RegisterHeaderExtension u k1 m = (e1, m1)"
    and "RegisterHeaderExtension u k2 m1 = (e2, m2)"
  shows "e1 = None \<and> e2 = None
    \<and> (\<exists>i. i < length (headerExtensions m1)
          \<and> filter (\<lambda>e. uri e = u) (headerExtensions m1) = [headerExtensions m1 ! i]
          \<and> length (headerExtensions m2) = length (headerExtensions m1)
          \<and> filter (\<lambda>e. uri e = u) (headerExtensions m2) = [headerExtensions m2 ! i]
          \<and> isAudio (headerExtensions m2 ! i) \<and> isVideo (headerExtensions m2 ! i)
          \<and> id_ext (headerExtensions m1 ! i) = int i
          \<and> id_ext (headerExtensions m2 ! i) = id_ext (headerExtensions m1 ! i))"
proof -
  let ?hs = "headerExtensions m"
  have d0: "distinct (map uri ?hs)" using assms(1) by (rule reachable_distinct_uri)
  have first: "e1 = None \<and> (\<exists>i. i < length (headerExtensions m1)
      \<and> uri (headerExtensions m1 ! i) = u
      \<and> id_ext (headerExtensions m1 ! i) = int i
      \<and> (k1 = RTPCodecTypeAudio \<longrightarrow> isAudio (headerExtensions m1 ! i))
      \<and> (k1 = RTPCodecTypeVideo \<longrightarrow> isVideo (headerExtensions m1 ! i)))"
  proof (cases "u \<in> set (map uri ?hs)")
    case True
    then obtain j where j: "j < length ?hs" "uri (?hs ! j) = u"
      by (metis in_set_conv_nth length_map nth_map)
    from assms(3) have "e1 = None"
      and "headerExtensions m1 = ?hs[j := registeredEntry u k1 j (?hs ! j)]"
      by (auto simp: RegisterHeaderExtension_present [OF d0 j])
    with j show ?thesis by (auto simp: registeredEntry_def intro!: exI [of _ j])
  next
    case False
    from assms(3) have "e1 = None"
      and "headerExtensions m1 = ?hs @ [registeredEntry u k1 (length ?hs)
             \<lparr>ok = False, id_ext = 0, uri = [], isAudio = False, isVideo = False\<rparr>]"
      by (auto simp: RegisterHeaderExtension_absent [OF False])
    then show ?thesis
      by (auto simp: registeredEntry_def intro!: exI [of _ "length ?hs"])
  qed
  then obtain i where i: "i < length (headerExtensions m1)"
      "uri (headerExtensions m1 ! i) = u" "id_ext (headerExtensions m1 ! i) = int i"
      "k1 = RTPCodecTypeAudio \<longrightarrow> isAudio (headerExtensions m1 ! i)"
      "k1 = RTPCodecTypeVideo \<longrightarrow> isVideo (headerExtensions m1 ! i)"
    and e1: "e1 = None" by blast
  have d1: "distinct (map uri (headerExtensions m1))"
    using RegisterHeaderExtension_distinct [OF d0, of u k1] assms(3) by simp
  let ?hs1 = "headerExtensions m1"
  from assms(4) have e2: "e2 = None"
    and hs2: "headerExtensions m2 = ?hs1[i := registeredEntry u k2 i (?hs1 ! i)]"
    by (auto simp: RegisterHeaderExtension_present [OF d1 i(1) i(2)])
  have d2: "distinct (map uri (headerExtensions m2))"
    using d1 by (simp add: hs2 map_uri_list_update i)
  have i2: "i < length (headerExtensions m2)" "uri (headerExtensions m2 ! i) = u"
    using i(1) by (simp_all add: hs2 registeredEntry_def)
  have "filter (\<lambda>e. uri e = u) ?hs1 = [?hs1 ! i]"
    by (rule filter_uri_unique [OF d1 i(1) i(2)])
  moreover have "filter (\<lambda>e. uri e = u) (headerExtensions m2) = [headerExtensions m2 ! i]"
    by (rule filter_uri_unique [OF d2 i2])
  moreover have "isAudio (headerExtensions m2 ! i) \<and> isVideo (headerExtensions m2 ! i)"
    using assms(2) i by (auto simp: hs2 registeredEntry_def)
  moreover have "id_ext (headerExtensions m2 ! i) = id_ext (?hs1 ! i)"
    using i by (simp add: hs2 registeredEntry_def)
  moreover have "length (headerExtensions m2) = length ?hs1" by (simp add: hs2)
  ultimately show ?thesis using e1 e2 i(1) i(3) by blast
qed

lemma exampleRegistry_eq:
  "exampleRegistry = emptyMediaEngine\<lparr>headerExtensions :=
      [exampleExtension ''urn:3gpp:video-orientation'' 0 False True]\<rparr>"
  by (simp add: exampleRegistry_def RegisterHeaderExtension_def emptyMediaEngine_def
      exampleExtension_def Let_def)

theorem RegisterHeaderExtension_both_kinds_witness:
  "reachable exampleRegistry
   \<and> RegisterHeaderExtension ''urn:ietf:params:rtp-hdrext:sdes:mid'' RTPCodecTypeAudio
        exampleRegistry = (None, exampleRegistry1)
   \<and> RegisterHeaderExtension ''urn:ietf:params:rtp-hdrext:sdes:mid'' RTPCodecTypeVideo
        exampleRegistry1 = (None, exampleRegistry2)
   \<and> headerExtensions exampleRegistry1
       = [exampleExtension ''urn:3gpp:video-orientation'' 0 False True,
          exampleExtension ''urn:ietf:params:rtp-hdrext:sdes:mid'' 1 True False]
   \<and> headerExtensions exampleRegistry2
       = [exampleExtension ''urn:3gpp:video-orientation'' 0 False True,
          exampleExtension ''urn:ietf:params:rtp-hdrext:sdes:mid'' 1 True True]
   \<and> (\<exists>i. i < length (headerExtensions exampleRegistry1)
          \<and> filter (\<lambda>e. uri e = ''urn:ietf:params:rtp-hdrext:sdes:mid'')
               (headerExtensions exampleRegistry1)
              = [headerExtensions exampleRegistry1 ! i]
          \<and> length (headerExtensions exampleRegistry2)
              = length (headerExtensions exampleRegistry1)
          \<and> filter (\<lambda>e. uri e = ''urn:ietf:params:rtp-hdrext:sdes:mid'')
               (headerExtensions exampleRegistry2)
              = [headerExtensions exampleRegistry2 ! i]
          \<and> isAudio (headerExtensions exampleRegistry2 ! i)
          \<and> isVideo (headerExtensions exampleRegistry2 ! i)
          \<and> id_ext (headerExtensions exampleRegistry1 ! i) = int i
          \<and> id_ext (headerExtensions exampleRegistry2 ! i)
              = id_ext (headerExtensions exampleRegistry1 ! i))"
proof -
  have r: "reachable exampleRegistry"
    unfolding exampleRegistry_def by (intro reachable.extension reachable.fresh)
  have k: "(RTPCodecTypeAudio = RTPCodecTypeAudio \<and> RTPCodecTypeVideo = RTPCodecTypeVideo)
         \<or> (RTPCodecTypeAudio = RTPCodecTypeVideo \<and> RTPCodecTypeVideo = RTPCodecTypeAudio)"
    by simp
  have a: "RegisterHeaderExtension ''urn:ietf:params:rtp-hdrext:sdes:mid'' RTPCodecTypeAudio
        exampleRegistry = (None, exampleRegistry1)"
    by (simp add: exampleRegistry1_def exampleRegistry_eq RegisterHeaderExtension_def
        emptyMediaEngine_def exampleExtension_def Let_def)
  have b: "RegisterHeaderExtension ''urn:ietf:params:rtp-hdrext:sdes:mid'' RTPCodecTypeVideo
        exampleRegistry1 = (None, exampleRegistry2)"
    by (simp add: exampleRegistry1_def exampleRegistry2_def RegisterHeaderExtension_def
        emptyMediaEngine_def exampleExtension_def Let_def)
  have c: "headerExtensions exampleRegistry1
       = [exampleExtension ''urn:3gpp:video-orientation'' 0 False True,
          exampleExtension ''urn:ietf:params:rtp-hdrext:sdes:mid'' 1 True False]"
    by (simp add: exampleRegistry1_def)
  have d: "headerExtensions exampleRegistry2
       = [exampleExtension ''urn:3gpp:video-orientation'' 0 False True,
          exampleExtension ''urn:ietf:params:rtp-hdrext:sdes:mid'' 1 True True]"
    by (simp add: exampleRegistry2_def)
  note t = RegisterHeaderExtension_both_kinds [OF r k a b]
  from r a b c d conjunct2 [OF conjunct2 [OF t]] show ?thesis by (intro conjI)
qed

section \<open>float64 rounding\<close>

text \<open>
  The rounding function is the one IEEE 754 describes: \<open>ilog2\<close> finds the binade of
  its argument, and \<open>f64_round\<close> returns a 53-bit significand times the power of two
  of that binade, at most half a unit in the last place away.
\<close>

lemma powi_nonneg: "0 \<le> k \<Longrightarrow> (2::rat) powi k = 2 ^ nat k"
  by (simp add: power_int_def)

lemma powi_neg: "0 \<le> k \<Longrightarrow> (2::rat) powi (- k) = 1 / 2 ^ nat k"
  by (simp add: power_int_minus powi_nonneg field_simps)

lemma bitlen_pos: "0 < n \<Longrightarrow> 1 \<le> bitlen n"
  using bitlen_bounds [of n] bitlen_nonneg [of n]
  by (cases "bitlen n = 0") auto

lemma ilog2_bounds:
  assumes "0 < x"
  shows "2 powi (ilog2 x) \<le> x \<and> x < 2 powi (ilog2 x + 1)"
proof (cases "1 \<le> x")
  case True
  define n where "n = \<lfloor>x\<rfloor>"
  have n: "1 \<le> n" using True by (simp add: n_def)
  then have b: "1 \<le> bitlen n" by (simp add: bitlen_pos)
  from bitlen_bounds [of n] n
  have lo: "2 ^ nat (bitlen n - 1) \<le> n" and hi: "n < 2 ^ nat (bitlen n)" by simp_all
  have "(2::rat) ^ nat (bitlen n - 1) = of_int (2 ^ nat (bitlen n - 1))" by simp
  also have "\<dots> \<le> of_int n" using lo by (simp only: of_int_le_iff)
  also have "\<dots> \<le> x" by (simp add: n_def)
  finally have 1: "(2::rat) ^ nat (bitlen n - 1) \<le> x" .
  have nb: "n + 1 \<le> 2 ^ nat (bitlen n)" using hi by simp
  have "x < of_int (n + 1)" unfolding n_def by linarith
  also have "\<dots> \<le> of_int (2 ^ nat (bitlen n))" using nb by (simp only: of_int_le_iff)
  also have "\<dots> = (2::rat) ^ nat (bitlen n)" by simp
  finally have 2: "x < (2::rat) ^ nat (bitlen n)" .
  have "ilog2 x = bitlen n - 1" using True by (simp add: ilog2_def n_def)
  with 1 2 b show ?thesis by (simp add: powi_nonneg)
next
  case False
  define y where "y = 1 / x"
  have y: "1 < y" using False assms by (simp add: y_def)
  define c where "c = \<lceil>y\<rceil>"
  have c: "2 \<le> c" using y by (simp add: c_def le_ceiling_iff)
  define k where "k = bitlen (c - 1)"
  have k: "1 \<le> k" using c by (simp add: k_def bitlen_pos)
  from bitlen_bounds [of "c - 1"] c
  have lo: "2 ^ nat (k - 1) \<le> c - 1" and hi: "c - 1 < 2 ^ nat k" by (simp_all add: k_def)
  have "(2::rat) ^ nat (k - 1) = of_int (2 ^ nat (k - 1))" by simp
  also have "\<dots> \<le> of_int (c - 1)" using lo by (simp only: of_int_le_iff)
  also have "\<dots> < y" unfolding c_def by simp linarith
  finally have 1: "(2::rat) ^ nat (k - 1) < y" .
  have ck: "c \<le> 2 ^ nat k" using hi by simp
  have "y \<le> of_int c" by (simp add: c_def)
  also have "\<dots> \<le> of_int (2 ^ nat k)" using ck by (simp only: of_int_le_iff)
  also have "\<dots> = (2::rat) ^ nat k" by simp
  finally have 2: "y \<le> (2::rat) ^ nat k" .
  have x: "x = 1 / y" using assms by (simp add: y_def)
  have y0: "0 < y" using y by simp
  have a: "1 / (2::rat) ^ nat k \<le> x"
    unfolding x using 2 y0 by (simp add: frac_le)
  have b: "x < 1 / (2::rat) ^ nat (k - 1)"
    unfolding x using 1 by (simp add: frac_less2)
  have il: "ilog2 x = - k" using False by (simp add: ilog2_def k_def c_def y_def)
  have e1: "(2::rat) powi (ilog2 x) = 1 / 2 ^ nat k"
    unfolding il using k by (intro powi_neg) simp
  have "(2::rat) powi (- (k - 1)) = 1 / 2 ^ nat (k - 1)"
    using k by (intro powi_neg) simp
  moreover have "ilog2 x + 1 = - (k - 1)" using il by simp
  ultimately have e2: "(2::rat) powi (ilog2 x + 1) = 1 / 2 ^ nat (k - 1)"
    by (simp only:)
  show ?thesis unfolding e1 e2 using a b by simp
qed

lemma roundHalfEven_error: "\<bar>of_int (roundHalfEven q) - q\<bar> \<le> 1 / 2"
proof -
  define f where "f = \<lfloor>q\<rfloor>"
  define r where "r = q - of_int f"
  have r: "0 \<le> r" "r < 1" unfolding r_def f_def by linarith+
  have q: "q = of_int f + r" by (simp add: r_def)
  have c: "roundHalfEven q = f \<and> r \<le> 1 / 2 \<or> roundHalfEven q = f + 1 \<and> 1 / 2 \<le> r"
    unfolding roundHalfEven_def Let_def f_def [symmetric] r_def [symmetric] by auto
  then show ?thesis
  proof
    assume "roundHalfEven q = f \<and> r \<le> 1 / 2"
    then show ?thesis using r by (simp add: q)
  next
    assume "roundHalfEven q = f + 1 \<and> 1 / 2 \<le> r"
    then show ?thesis using r by (simp add: q)
  qed
qed

lemma roundHalfEven_mono_int: "of_int n \<le> q \<Longrightarrow> n \<le> roundHalfEven q"
proof -
  assume "of_int n \<le> q"
  then have "n \<le> \<lfloor>q\<rfloor>" by (simp add: le_floor_iff)
  then show ?thesis by (auto simp: roundHalfEven_def Let_def)
qed

lemma roundHalfEven_le_int: "q \<le> of_int n \<Longrightarrow> roundHalfEven q \<le> n"
proof -
  assume a: "q \<le> of_int n"
  show ?thesis
  proof (cases "q = of_int n")
    case True
    then show ?thesis by (simp add: roundHalfEven_def Let_def)
  next
    case False
    with a have "q < of_int n" by simp
    then have "\<lfloor>q\<rfloor> < n" by (simp add: floor_less_iff)
    then show ?thesis by (auto simp: roundHalfEven_def Let_def)
  qed
qed

lemma roundHalfEven_of_int: "roundHalfEven (of_int n) = n"
  by (simp add: roundHalfEven_def Let_def)

text \<open>
  What \<open>f64_round\<close> returns, for \<open>x\<close> other than 0: a number \<open>m * 2 ^ e\<close> with a
  significand \<open>m\<close> of 53 bits (or the next power of two) and the exponent \<open>e\<close> that
  belongs to \<open>x\<close>, at most half a unit in the last place from \<open>x\<close>.
\<close>

lemma f64_round_nearest:
  assumes "x \<noteq> 0"
  shows "\<exists>m. f64_round x = sgn x * of_int m * 2 powi (ilog2 \<bar>x\<bar> - 52)
           \<and> 2 ^ 52 \<le> m \<and> m \<le> 2 ^ 53
           \<and> \<bar>f64_round x - x\<bar> \<le> 2 powi (ilog2 \<bar>x\<bar> - 52) / 2"
proof -
  define l where "l = ilog2 \<bar>x\<bar>"
  define u where "u = (2::rat) powi (l - 52)"
  define q where "q = \<bar>x\<bar> / u"
  define m where "m = roundHalfEven q"
  have u: "0 < u" by (simp add: u_def)
  have ax: "0 < \<bar>x\<bar>" using assms by simp
  from ilog2_bounds [OF ax] have b: "2 powi l \<le> \<bar>x\<bar>" "\<bar>x\<bar> < 2 powi (l + 1)"
    by (simp_all add: l_def)
  have p1: "(2::rat) powi l = 2 ^ 52 * u"
    unfolding u_def by (simp add: power_int_diff)
  have p2: "(2::rat) powi (l + 1) = 2 ^ 53 * u"
    unfolding u_def by (simp add: power_int_diff power_int_add)
  have q1: "2 ^ 52 \<le> q" using b(1) u unfolding q_def p1 by (simp add: le_divide_eq)
  have q2: "q \<le> 2 ^ 53" using b(2) u unfolding q_def p2 by (simp add: divide_le_eq)
  have m1: "2 ^ 52 \<le> m"
    unfolding m_def using roundHalfEven_mono_int [of "2 ^ 52" q] q1 by simp
  have m2: "m \<le> 2 ^ 53"
    unfolding m_def using roundHalfEven_le_int [of q "2 ^ 53"] q2 by simp
  have f: "f64_round x = sgn x * of_int m * u"
    using assms by (simp add: f64_round_def Let_def m_def q_def u_def l_def)
  have "f64_round x - x = sgn x * (of_int m - q) * u"
    unfolding f using u by (simp add: q_def field_simps abs_sgn sgn_mult_abs)
  then have "\<bar>f64_round x - x\<bar> = \<bar>of_int m - q\<bar> * u"
    using assms u by (simp add: abs_mult abs_sgn_eq)
  also have "\<dots> \<le> (1 / 2) * u"
    using roundHalfEven_error [of q] u unfolding m_def by (intro mult_right_mono) simp_all
  finally have e: "\<bar>f64_round x - x\<bar> \<le> u / 2" by simp
  from f m1 m2 e show ?thesis unfolding u_def l_def by blast
qed

text \<open>Integers below \<open>2 ^ 53\<close> in size are \<^verbatim>\<open>float64\<close> numbers: the conversion is exact.\<close>

lemma f64_of_int_exact:
  assumes "\<bar>n\<bar> < 2 ^ 53"
  shows "f64_of_int n = of_int n"
proof (cases "n = 0")
  case True
  then show ?thesis by (simp add: f64_of_int_def f64_round_def)
next
  case False
  define x :: rat where "x = of_int n"
  define l where "l = ilog2 \<bar>x\<bar>"
  have x0: "x \<noteq> 0" "0 < \<bar>x\<bar>" using False by (simp_all add: x_def)
  have ax: "\<bar>x\<bar> = of_int \<bar>n\<bar>" by (simp add: x_def)
  from ilog2_bounds [OF x0(2)] have b: "2 powi l \<le> \<bar>x\<bar>" by (simp add: l_def)
  have "\<bar>x\<bar> < of_int (2 ^ 53)" unfolding ax using assms by (simp only: of_int_less_iff)
  then have "\<bar>x\<bar> < (2::rat) powi 53" by simp
  with b have "(2::rat) powi l < 2 powi 53" by simp
  then have l: "l < 53" by (rule power_int_le_imp_less_exp [rotated]) simp_all
  define j where "j = nat (52 - l)"
  have "(2::rat) powi (- (52 - l)) = 1 / 2 ^ nat (52 - l)"
    using l by (intro powi_neg) simp
  moreover have "l - 52 = - (52 - l)" by simp
  ultimately have u: "(2::rat) powi (l - 52) = 1 / 2 ^ j" by (simp only: j_def)
  have q: "\<bar>x\<bar> / (1 / 2 ^ j) = of_int (\<bar>n\<bar> * 2 ^ j)" by (simp add: ax)
  have "f64_round x = sgn x * of_int (roundHalfEven (\<bar>x\<bar> / (1 / 2 ^ j))) * (1 / 2 ^ j)"
    using x0(1) by (simp add: f64_round_def Let_def l_def [symmetric] u)
  also have "\<dots> = sgn x * of_int (\<bar>n\<bar> * 2 ^ j) * (1 / 2 ^ j)"
    by (simp only: q roundHalfEven_of_int)
  also have "\<dots> = sgn x * \<bar>x\<bar>" by (simp add: ax)
  also have "\<dots> = x" by (simp add: sgn_mult_abs)
  finally show ?thesis by (simp add: f64_of_int_def x_def)
qed

lemma f64_of_int_uint32: "f64_of_int (uint (r :: 32 word)) = of_int (uint r)"
proof -
  have "uint r < 2 ^ 32" using uint_bounded [of r] by simp
  moreover have "0 \<le> uint r" by simp
  ultimately have "\<bar>uint r\<bar> < 2 ^ 53" by simp
  then show ?thesis by (rule f64_of_int_exact)
qed

section \<open>WriteSample\<close>

text \<open>Evaluating \<open>f64_round\<close> at numerals.\<close>

lemma floor_rat_numeral:
  "\<lfloor>numeral a / numeral b :: rat\<rfloor> = numeral a div numeral b"
  by (metis floor_divide_of_int_eq of_int_numeral)

lemma ceiling_rat_numeral:
  "\<lceil>numeral a / numeral b :: rat\<rceil> = - ((- numeral a) div numeral b)"
  by (metis ceiling_def floor_divide_of_int_eq minus_divide_left of_int_minus of_int_numeral)

lemmas f64_eval =
  f64_round_def ilog2_def roundHalfEven_def compute_bitlen Let_def
  floor_rat_numeral ceiling_rat_numeral

lemma f64_of_int_0: "f64_of_int 0 = 0"
  by (simp add: f64_of_int_def f64_round_def)

lemma f64_of_int_20000000: "f64_of_int 20000000 = 20000000"
  by (simp add: f64_of_int_def f64_eval)

lemma f64_of_int_48000: "f64_of_int 48000 = 48000"
  by (simp add: f64_of_int_def f64_eval)

lemma f64_div_20ms: "f64_div 20000000 1000000000 = 5764607523034235 / 288230376151711744"
  by (simp add: f64_div_def f64_eval)

lemma f64_add_20ms:
  "f64_add 0 (5764607523034235 / 288230376151711744) = 5764607523034235 / 288230376151711744"
  by (simp add: f64_add_def f64_eval)

lemma Duration_Seconds_20ms:
  "Duration_Seconds 20000000 = 5764607523034235 / 288230376151711744"
  by (simp add: Duration_Seconds_def go_quot_def go_rem_def f64_of_int_0 f64_of_int_20000000
      f64_div_20ms f64_add_20ms)

lemma f64_mul_20ms_48000:
  "f64_mul (5764607523034235 / 288230376151711744) 48000 = 960"
  by (simp add: f64_mul_def f64_eval)

lemma WriteSample_samples_20ms_48000:
  "Duration sample = 20000000 \<Longrightarrow> ClockRate (codec (rtpTrack s)) = 48000
   \<Longrightarrow> WriteSample_samples s sample = 960"
  by (simp add: WriteSample_samples_def Duration_Seconds_20ms f64_of_int_48000
      f64_mul_20ms_48000)

lemma uint32_of_float64_in_range:
  assumes "0 \<le> x" "x < 2 ^ 32"
  shows "uint (uint32_of_float64 oor x) = \<lfloor>x\<rfloor>"
proof -
  have t: "f64_truncate x = \<lfloor>x\<rfloor>" using assms by (simp add: f64_truncate_def)
  have lo: "0 \<le> \<lfloor>x\<rfloor>" using assms by simp
  have hi: "\<lfloor>x\<rfloor> < 2 ^ 32" using assms by (simp add: floor_less_iff)
  have "uint (word_of_int \<lfloor>x\<rfloor> :: 32 word) = \<lfloor>x\<rfloor>"
    using lo hi by (simp add: uint_word_of_int take_bit_int_eq_self)
  with t lo hi show ?thesis by (simp add: uint32_of_float64_def)
qed

lemma f64_of_int_33333333: "f64_of_int 33333333 = 33333333"
  by (simp add: f64_of_int_def f64_eval)

lemma f64_of_int_90000: "f64_of_int 90000 = 90000"
  by (simp add: f64_of_int_def f64_eval)

lemma f64_div_33ms:
  "f64_div 33333333 1000000000 = 4803839554490133 / 144115188075855872"
  by (simp add: f64_div_def f64_eval)

lemma f64_add_33ms:
  "f64_add 0 (4803839554490133 / 144115188075855872)
     = 4803839554490133 / 144115188075855872"
  by (simp add: f64_add_def f64_eval)

lemma Duration_Seconds_33ms:
  "Duration_Seconds 33333333 = 4803839554490133 / 144115188075855872"
  by (simp add: Duration_Seconds_def go_quot_def go_rem_def f64_of_int_0 f64_of_int_33333333
      f64_div_33ms f64_add_33ms)

lemma f64_mul_33ms_90000:
  "f64_mul (4803839554490133 / 144115188075855872) 90000
     = 3298534850342651 / 1099511627776"
  by (simp add: f64_mul_def f64_eval)

lemma WriteSample_samples_33ms_90000:
  "WriteSample_samples videoSampleTrack (exampleSample 33333333)
     = 3298534850342651 / 1099511627776"
  by (simp add: WriteSample_samples_def videoSampleTrack_def exampleSample_def
      Duration_Seconds_33ms f64_of_int_90000 f64_mul_33ms_90000)

lemma uint32_of_float64_2999:
  "uint32_of_float64 oor (3298534850342651 / 1099511627776) = 2999"
  by (simp add: uint32_of_float64_def f64_truncate_def floor_rat_numeral)

text \<open>
  Claim C7, as amended. With a packetizer stored (after a successful \<^verbatim>\<open>Bind\<close>),
  \<^verbatim>\<open>WriteSample\<close> hands \<^verbatim>\<open>Packetize\<close> the sample's data and \<^verbatim>\<open>uint32(samples)\<close>,
  where \<^verbatim>\<open>samples\<close> is the \<^verbatim>\<open>float64\<close> product of the duration in seconds and the
  clock rate (the conversion of the clock rate to \<^verbatim>\<open>float64\<close> is exact). The
  conversion to \<^verbatim>\<open>uint32\<close> discards the fraction: for a product in the range of
  \<^verbatim>\<open>uint32\<close> the tick count is its floor, not the nearest integer. A sample of 20 ms
  at 48000 Hz gives exactly 960 ticks.
\<close>

theorem WriteSample_tick_advance:
  assumes "packetizer s = Some p"
  shows "TrackLocalStaticSample_WriteSample pk oor wr s sample w
      = (case pk p (Data sample) (uint32_of_float64 oor (WriteSample_samples s sample)) of
           (packets, p') \<Rightarrow>
             (case WriteSample_loop wr (rtpTrack s) packets [] w of
                (writeErrs, w') \<Rightarrow> (FlattenErrs writeErrs, s\<lparr>packetizer := Some p'\<rparr>, w')))
    \<and> WriteSample_samples s sample
        = f64_mul (Duration_Seconds (Duration sample))
            (of_int (uint (ClockRate (codec (rtpTrack s)))))
    \<and> (0 \<le> WriteSample_samples s sample \<and> WriteSample_samples s sample < 2 ^ 32
         \<longrightarrow> uint (uint32_of_float64 oor (WriteSample_samples s sample))
               = \<lfloor>WriteSample_samples s sample\<rfloor>
             \<and> of_int (uint (uint32_of_float64 oor (WriteSample_samples s sample)))
                 \<le> WriteSample_samples s sample
             \<and> WriteSample_samples s sample
                 < of_int (uint (uint32_of_float64 oor (WriteSample_samples s sample))) + 1)
    \<and> (Duration sample = 20000000 \<and> ClockRate (codec (rtpTrack s)) = 48000
         \<longrightarrow> uint32_of_float64 oor (WriteSample_samples s sample) = 960)"
proof (intro conjI impI)
  show "TrackLocalStaticSample_WriteSample pk oor wr s sample w
      = (case pk p (Data sample) (uint32_of_float64 oor (WriteSample_samples s sample)) of
           (packets, p') \<Rightarrow>
             (case WriteSample_loop wr (rtpTrack s) packets [] w of
                (writeErrs, w') \<Rightarrow> (FlattenErrs writeErrs, s\<lparr>packetizer := Some p'\<rparr>, w')))"
    using assms by (simp add: TrackLocalStaticSample_WriteSample_def)
  show "WriteSample_samples s sample
        = f64_mul (Duration_Seconds (Duration sample))
            (of_int (uint (ClockRate (codec (rtpTrack s)))))"
    by (simp add: WriteSample_samples_def f64_of_int_uint32)
next
  assume r: "0 \<le> WriteSample_samples s sample \<and> WriteSample_samples s sample < 2 ^ 32"
  then have u: "uint (uint32_of_float64 oor (WriteSample_samples s sample))
      = \<lfloor>WriteSample_samples s sample\<rfloor>"
    by (simp add: uint32_of_float64_in_range)
  show "uint (uint32_of_float64 oor (WriteSample_samples s sample))
      = \<lfloor>WriteSample_samples s sample\<rfloor>" by (rule u)
  show "of_int (uint (uint32_of_float64 oor (WriteSample_samples s sample)))
      \<le> WriteSample_samples s sample" unfolding u by simp
  show "WriteSample_samples s sample
      < of_int (uint (uint32_of_float64 oor (WriteSample_samples s sample))) + 1"
    unfolding u by linarith
next
  assume "Duration sample = 20000000 \<and> ClockRate (codec (rtpTrack s)) = 48000"
  then have "WriteSample_samples s sample = 960"
    by (simp add: WriteSample_samples_20ms_48000)
  then show "uint32_of_float64 oor (WriteSample_samples s sample) = 960"
    by (simp add: uint32_of_float64_def f64_truncate_def)
qed

theorem WriteSample_tick_advance_witness:
  "packetizer boundSampleTrack
     = Some \<lparr>pz_MTU = 1200, pz_PayloadType = 0, pz_SSRC = 0, pz_Payloader = OpusPayloader,
             pz_Sequencer = 0, pz_ClockRate = 48000\<rparr>
   \<and> Duration (exampleSample 20000000) = 20000000
   \<and> ClockRate (codec (rtpTrack boundSampleTrack)) = 48000
   \<and> uint32_of_float64 (\<lambda>x. 0)
         (WriteSample_samples boundSampleTrack (exampleSample 20000000)) = 960
   \<and> TrackLocalStaticSample_WriteSample examplePacketize (\<lambda>x. 0) exampleSinks
         boundSampleTrack (exampleSample 20000000) 0
       = (None,
          boundSampleTrack\<lparr>packetizer :=
            Some \<lparr>pz_MTU = 1200, pz_PayloadType = 0, pz_SSRC = 0,
                  pz_Payloader = OpusPayloader, pz_Sequencer = 960, pz_ClockRate = 48000\<rparr>\<rparr>,
          2)"
proof -
  have h: "packetizer boundSampleTrack
     = Some \<lparr>pz_MTU = 1200, pz_PayloadType = 0, pz_SSRC = 0, pz_Payloader = OpusPayloader,
             pz_Sequencer = 0, pz_ClockRate = 48000\<rparr>"
    by (simp add: boundSampleTrack_def)
  have d: "Duration (exampleSample 20000000) = 20000000"
    by (simp add: exampleSample_def)
  have c: "ClockRate (codec (rtpTrack boundSampleTrack)) = 48000"
    by (simp add: boundSampleTrack_def opusCapability_def)
  note t = WriteSample_tick_advance [OF h, of examplePacketize "\<lambda>x. 0" exampleSinks
      "exampleSample 20000000" 0]
  from t [THEN conjunct2, THEN conjunct2, THEN conjunct2] d c
  have ticks: "uint32_of_float64 (\<lambda>x. 0)
         (WriteSample_samples boundSampleTrack (exampleSample 20000000)) = 960"
    by simp
  have "TrackLocalStaticSample_WriteSample examplePacketize (\<lambda>x. 0) exampleSinks
         boundSampleTrack (exampleSample 20000000) 0
       = (None,
          boundSampleTrack\<lparr>packetizer :=
            Some \<lparr>pz_MTU = 1200, pz_PayloadType = 0, pz_SSRC = 0,
                  pz_Payloader = OpusPayloader, pz_Sequencer = 960, pz_ClockRate = 48000\<rparr>\<rparr>,
          2)"
    unfolding t [THEN conjunct1] ticks
    by (simp add: examplePacketize_def exampleSample_def boundSampleTrack_def
        TrackLocalStaticRTP_WriteRTP_def exampleSinks_def FlattenErrs_def)
  with h d c ticks show ?thesis by (intro conjI)
qed

text \<open>
  The claim as stated fails: for a video frame of 33333333 ns at 90000 Hz the product
  is just below 3000 (exactly and in \<^verbatim>\<open>float64\<close>), its nearest integer is 3000, and
  \<^verbatim>\<open>WriteSample\<close> hands the packetizer 2999.
\<close>

theorem WriteSample_truncates_not_rounds:
  "packetizer videoSampleTrack
     = Some \<lparr>pz_MTU = 1200, pz_PayloadType = 0, pz_SSRC = 0, pz_Payloader = VP8Payloader,
             pz_Sequencer = 0, pz_ClockRate = 90000\<rparr>
   \<and> WriteSample_samples videoSampleTrack (exampleSample 33333333)
       = 3298534850342651 / 1099511627776
   \<and> round (WriteSample_samples videoSampleTrack (exampleSample 33333333)) = 3000
   \<and> round (33333333 * 90000 / 1000000000 :: rat) = 3000
   \<and> uint32_of_float64 (\<lambda>x. 0)
         (WriteSample_samples videoSampleTrack (exampleSample 33333333)) = 2999
   \<and> TrackLocalStaticSample_WriteSample examplePacketize (\<lambda>x. 0) exampleSinks
         videoSampleTrack (exampleSample 33333333) 0
       = (None,
          videoSampleTrack\<lparr>packetizer :=
            Some \<lparr>pz_MTU = 1200, pz_PayloadType = 0, pz_SSRC = 0,
                  pz_Payloader = VP8Payloader, pz_Sequencer = 2999, pz_ClockRate = 90000\<rparr>\<rparr>,
          0)"
proof -
  have r1: "round (3298534850342651 / 1099511627776 :: rat) = 3000"
    by (simp add: round_def floor_rat_numeral)
  have r2: "round (33333333 * 90000 / 1000000000 :: rat) = 3000"
    by (simp add: round_def floor_rat_numeral)
  have w: "TrackLocalStaticSample_WriteSample examplePacketize (\<lambda>x. 0) exampleSinks
         videoSampleTrack (exampleSample 33333333) 0
       = (None,
          videoSampleTrack\<lparr>packetizer :=
            Some \<lparr>pz_MTU = 1200, pz_PayloadType = 0, pz_SSRC = 0,
                  pz_Payloader = VP8Payloader, pz_Sequencer = 2999, pz_ClockRate = 90000\<rparr>\<rparr>,
          0)"
    unfolding TrackLocalStaticSample_WriteSample_def Let_def WriteSample_samples_33ms_90000
      uint32_of_float64_2999
    by (simp add: videoSampleTrack_def examplePacketize_def exampleSample_def
        TrackLocalStaticRTP_WriteRTP_def FlattenErrs_def)
  show ?thesis
    unfolding WriteSample_samples_33ms_90000 uint32_of_float64_2999
    using r1 r2 w [unfolded WriteSample_samples_33ms_90000 uint32_of_float64_2999]
    by (simp add: videoSampleTrack_def)
qed

end
